theory Spec2Isabelle
  imports Main "HOL-Library.Product_Lexorder" "HOL-Library.Multiset"
begin

section \<open>Data model\<close>

text \<open>
  The clients work on JSON payloads decoded into Python dictionaries. Each payload kind is
  a record here. A key that the source reads with \<^verbatim>\<open>d.get(k, default)\<close> is an optional
  field (\<open>None\<close> when the key is absent); a key that the source indexes directly
  (\<^verbatim>\<open>episode['seasonNumber']\<close>, \<^verbatim>\<open>tag["id"]\<close>) is a mandatory field.
\<close>

record statistics =
  episodeCount :: "int option"
  sizeOnDisk :: "int option"

record season =
  season_monitored :: "bool option"
  season_statistics :: "statistics option"

record series =
  series_id :: "int option"
  tvdbId :: "int option"
  series_title :: "string option"
  series_tags :: "int list option"
  ended :: "bool option"
  seasons :: "season list option"
  series_statistics :: "statistics option"

record movie =
  movie_id :: "int option"
  tmdbId :: "int option"
  movie_title :: "string option"
  movie_tags :: "int list option"
  movie_sizeOnDisk :: "int option"

record episode =
  episode_id :: "int option"
  seasonNumber :: int
  episodeNumber :: int
  monitored :: "bool option"
  hasFile :: "bool option"
  episodeFileId :: "int option"

record tag =
  tag_id :: int
  label :: string

text \<open>The part of \<^verbatim>\<open>config\<close> that the two clients read in their constructors.\<close>

record config =
  radarr_exempt_tag_names :: "string list"
  sonarr_exempt_tag_names :: "string list"
  monitor_continuing_series :: bool
  episodes_to_load :: int

text \<open>\<^verbatim>\<open>d.get(k, default)\<close> on an optional field.\<close>

definition get_or :: "'a option \<Rightarrow> 'a \<Rightarrow> 'a" where
  "get_or v d = (case v of None \<Rightarrow> d | Some x \<Rightarrow> x)"

text \<open>\<^verbatim>\<open>series.get("statistics", {}).get("sizeOnDisk", 0)\<close>\<close>

definition series_size_on_disk :: "series \<Rightarrow> int" where
  "series_size_on_disk s =
     (case series_statistics s of None \<Rightarrow> 0 | Some st \<Rightarrow> get_or (sizeOnDisk st) 0)"

text \<open>\<^verbatim>\<open>season.get("statistics", {}).get("episodeCount", 0)\<close>\<close>

definition season_episode_count :: "season \<Rightarrow> int" where
  "season_episode_count sn =
     (case season_statistics sn of None \<Rightarrow> 0 | Some st \<Rightarrow> get_or (episodeCount st) 0)"

subsection \<open>Python's \<^verbatim>\<open>str\<close> on the catalogue ids\<close>

text \<open>
  The candidate mapping is keyed by \<^verbatim>\<open>str(series.get("tvdbId"))\<close>: the decimal
  numeral of the id, or \<^verbatim>\<open>"None"\<close> when the key is absent.
\<close>

definition digit_char :: "nat \<Rightarrow> char" where
  "digit_char d = ''0123456789'' ! d"

function str_nat :: "nat \<Rightarrow> string" where
  "str_nat n = (if n < 10 then [digit_char n] else str_nat (n div 10) @ [digit_char (n mod 10)])"
  by pat_completeness auto
termination
  by (relation "measure id") auto

declare str_nat.simps [simp del]

definition str_int :: "int \<Rightarrow> string" where
  "str_int i = (if i < 0 then CHR ''-'' # str_nat (nat (- i)) else str_nat (nat i))"

definition py_str :: "int option \<Rightarrow> string" where
  "py_str v = (case v of None \<Rightarrow> ''None'' | Some i \<Rightarrow> str_int i)"

section \<open>Episode window of a continuing series\<close>

text \<open>
  \<^verbatim>\<open>xs[n:]\<close> for a Python integer \<open>n\<close>: a negative start counts from the end of the
  list and is clamped at the front.
\<close>

definition py_slice_from :: "'a list \<Rightarrow> int \<Rightarrow> 'a list" where
  "py_slice_from xs n =
     (if n < 0 then drop (nat (max (int (length xs) + n) 0)) xs else drop (nat n) xs)"

text \<open>
  Lines 111 to 113 of \<^verbatim>\<open>clients/sonarr.py\<close>. Python compares the key tuples
  lexicographically and \<^verbatim>\<open>sorted\<close> is stable, as \<^const>\<open>sort_key\<close> is.
\<close>

definition filtered_episodes :: "episode list \<Rightarrow> episode list" where
  "filtered_episodes episodes = filter (\<lambda>e. seasonNumber e \<noteq> 0) episodes"

definition episode_key :: "episode \<Rightarrow> int \<times> int" where
  "episode_key e = (seasonNumber e, episodeNumber e)"

definition sorted_episodes :: "episode list \<Rightarrow> episode list" where
  "sorted_episodes episodes = sort_key episode_key (filtered_episodes episodes)"

definition episodes_to_unload :: "config \<Rightarrow> episode list \<Rightarrow> episode list" where
  "episodes_to_unload cfg episodes =
     py_slice_from (sorted_episodes episodes) (episodes_to_load cfg)"

text \<open>
  The loop of lines 115 to 122, with its two accumulators. An absent \<^verbatim>\<open>monitored\<close> or
  \<^verbatim>\<open>hasFile\<close> key reads as false.
\<close>

fun collect_ids ::
  "episode list \<Rightarrow> int option list \<Rightarrow> int option list \<Rightarrow> int option list \<times> int option list"
where
  "collect_ids [] unmonitor_episode_ids delete_episode_file_ids =
     (unmonitor_episode_ids, delete_episode_file_ids)"
| "collect_ids (e # es) unmonitor_episode_ids delete_episode_file_ids =
     collect_ids es
       (if get_or (monitored e) False
        then unmonitor_episode_ids @ [episode_id e] else unmonitor_episode_ids)
       (if get_or (hasFile e) False \<and> episodeFileId e \<notin> set delete_episode_file_ids
        then delete_episode_file_ids @ [episodeFileId e] else delete_episode_file_ids)"

definition unmonitor_episode_ids :: "episode list \<Rightarrow> int option list" where
  "unmonitor_episode_ids unload = fst (collect_ids unload [] [])"

definition delete_episode_file_ids :: "episode list \<Rightarrow> int option list" where
  "delete_episode_file_ids unload = snd (collect_ids unload [] [])"

text \<open>
  \<^verbatim>\<open>__unmonitor_empty_seasons\<close>: a season whose episode count is positive is skipped;
  any other season that reads as monitored has the flag set to false.
\<close>

definition unmonitor_season :: "season \<Rightarrow> season" where
  "unmonitor_season sn =
     (if season_episode_count sn > 0 then sn
      else if get_or (season_monitored sn) False then sn\<lparr>season_monitored := Some False\<rparr>
      else sn)"

definition unmonitor_empty_seasons :: "series \<Rightarrow> series" where
  "unmonitor_empty_seasons s =
     (case seasons s of
        None \<Rightarrow> s
      | Some sns \<Rightarrow> s\<lparr>seasons := Some (map unmonitor_season sns)\<rparr>)"

section \<open>The remote services and the state of a run\<close>

text \<open>
  Every request that a client sends is recorded, in order, in a trace. \<open>Sleep\<close> is the
  pause that the \<^verbatim>\<open>retry\<close> decorator makes between two attempts.
\<close>

datatype call =
    Sonarr_GET_series
  | Sonarr_GET_tag
  | Sonarr_GET_episode "int option"
  | Sonarr_PUT_series series
  | Sonarr_PUT_episode_monitor "int option list" bool
  | Sonarr_DELETE_series "int option"
  | Sonarr_DELETE_episodefile_bulk "int option list"
  | Radarr_GET_movie
  | Radarr_GET_tag
  | Radarr_DELETE_movie "int option"
  | Sleep nat

text \<open>
  The services are outside the program. A remote answers a request as a function of the
  whole history of requests up to and including that request: \<open>status_ok\<close> tells whether
  the status code is the one the client expects (otherwise the client raises
  \<^verbatim>\<open>RequestException\<close>), the other fields are the decoded bodies.
\<close>

record remote =
  status_ok :: "call list \<Rightarrow> bool"
  series_body :: "call list \<Rightarrow> series list"
  tag_body :: "call list \<Rightarrow> tag list"
  episode_body :: "call list \<Rightarrow> episode list"
  put_series_body :: "call list \<Rightarrow> series"
  movie_body :: "call list \<Rightarrow> movie list"

datatype error = RequestException

text \<open>
  The branch of the loop body that an item takes. The source does not store it; the model
  logs it in the ghost field \<open>dispositions\<close>.
\<close>

datatype disposition = NotCandidate | ExemptSkip | Deleted | Trimmed | NoOp

text \<open>
  The variables of a run: the trace of requests, the dictionary \<^verbatim>\<open>media_to_delete\<close>
  (an object shared with the caller and mutated in place), the counters \<^verbatim>\<open>total_size\<close>
  and \<^verbatim>\<open>exempt_count\<close> that the summary log line reports, and the ghost log of
  dispositions.
\<close>

record state =
  trace :: "call list"
  media_to_delete :: "string \<rightharpoonup> string"
  total_size :: int
  exempt_count :: int
  dispositions :: "disposition list"

definition send :: "call \<Rightarrow> state \<Rightarrow> state" where
  "send c st = st\<lparr>trace := trace st @ [c]\<rparr>"

definition note_disposition :: "disposition \<Rightarrow> state \<Rightarrow> state" where
  "note_disposition d st = st\<lparr>dispositions := dispositions st @ [d]\<rparr>"

text \<open>\<^verbatim>\<open>any(tag in exempt_tag_ids for tag in item.get("tags", []))\<close>\<close>

definition is_exempt :: "int list \<Rightarrow> int list option \<Rightarrow> bool" where
  "is_exempt exempt_tag_ids tags = (\<exists>t \<in> set (get_or tags []). t \<in> set exempt_tag_ids)"

text \<open>\<^verbatim>\<open>[tag["id"] for tag in tags if tag["label"] in tag_names]\<close>\<close>

definition matching_tag_ids :: "string list \<Rightarrow> tag list \<Rightarrow> int list" where
  "matching_tag_ids tag_names tags = map tag_id (filter (\<lambda>t. label t \<in> set tag_names) tags)"

section \<open>The Sonarr client\<close>

definition sonarr_get_media :: "remote \<Rightarrow> state \<Rightarrow> state \<times> (error + series list)" where
  "sonarr_get_media R st =
     (let st' = send Sonarr_GET_series st in
      if \<not> status_ok R (trace st') then (st', Inl RequestException)
      else (st', Inr (series_body R (trace st'))))"

definition sonarr_get_exempt_tag_ids ::
  "remote \<Rightarrow> string list \<Rightarrow> state \<Rightarrow> state \<times> (error + int list)" where
  "sonarr_get_exempt_tag_ids R tag_names st =
     (let st' = send Sonarr_GET_tag st in
      if \<not> status_ok R (trace st') then (st', Inl RequestException)
      else (st', Inr (matching_tag_ids tag_names (tag_body R (trace st')))))"

definition get_media_episodes ::
  "remote \<Rightarrow> int option \<Rightarrow> state \<Rightarrow> state \<times> (error + episode list)" where
  "get_media_episodes R media_id st =
     (let st' = send (Sonarr_GET_episode media_id) st in
      if \<not> status_ok R (trace st') then (st', Inl RequestException)
      else (st', Inr (episode_body R (trace st'))))"

definition put_media :: "remote \<Rightarrow> series \<Rightarrow> state \<Rightarrow> state \<times> (error + series)" where
  "put_media R s st =
     (let st' = send (Sonarr_PUT_series s) st in
      if \<not> status_ok R (trace st') then (st', Inl RequestException)
      else (st', Inr (put_series_body R (trace st'))))"

definition monitor_media_episodes ::
  "remote \<Rightarrow> int option list \<Rightarrow> bool \<Rightarrow> state \<Rightarrow> state \<times> (error + unit)" where
  "monitor_media_episodes R episode_ids mon st =
     (let st' = send (Sonarr_PUT_episode_monitor episode_ids mon) st in
      if \<not> status_ok R (trace st') then (st', Inl RequestException) else (st', Inr ()))"

definition sonarr_delete_media :: "remote \<Rightarrow> int option \<Rightarrow> state \<Rightarrow> state \<times> (error + unit)" where
  "sonarr_delete_media R media_id st =
     (let st' = send (Sonarr_DELETE_series media_id) st in
      if \<not> status_ok R (trace st') then (st', Inl RequestException) else (st', Inr ()))"

definition delete_media_episodes ::
  "remote \<Rightarrow> int option list \<Rightarrow> state \<Rightarrow> state \<times> (error + unit)" where
  "delete_media_episodes R episode_ids st =
     (let st' = send (Sonarr_DELETE_episodefile_bulk episode_ids) st in
      if \<not> status_ok R (trace st') then (st', Inl RequestException) else (st', Inr ()))"

text \<open>
  \<^verbatim>\<open>__handle_ended_series\<close> returns the bytes it reports. The \<^verbatim>\<open>except\<close> clause only
  logs, so both outcomes of the delete request reach the same final \<^verbatim>\<open>return\<close>.
\<close>

definition handle_ended_series :: "remote \<Rightarrow> series \<Rightarrow> bool \<Rightarrow> state \<Rightarrow> state \<times> int" where
  "handle_ended_series R s dry_run st =
     (let size_on_disk = series_size_on_disk s in
      if dry_run then (st, size_on_disk)
      else (case sonarr_delete_media R (series_id s) st of
              (st', Inr _) \<Rightarrow> (st', series_size_on_disk s)
            | (st', Inl err) \<Rightarrow> (st', series_size_on_disk s)))"

text \<open>
  \<^verbatim>\<open>__handle_continuing_series\<close>. The episode list is fetched before the \<^verbatim>\<open>try\<close>
  block, so a failure of that request leaves the function as an exception; the three
  mutating requests are inside the block, whose handler returns \<^verbatim>\<open>size_on_disk\<close>,
  still \<open>0\<close> at each point where a request can fail.
\<close>

definition handle_continuing_series ::
  "remote \<Rightarrow> config \<Rightarrow> series \<Rightarrow> bool \<Rightarrow> state \<Rightarrow> state \<times> (error + int)" where
  "handle_continuing_series R cfg s dry_run st =
     (case get_media_episodes R (series_id s) st of
        (st1, Inl err) \<Rightarrow> (st1, Inl err)
      | (st1, Inr episodes) \<Rightarrow>
          let unload = episodes_to_unload cfg episodes;
              unmonitor_ids = unmonitor_episode_ids unload;
              delete_ids = delete_episode_file_ids unload
          in
          if dry_run then (st1, Inr 0)
          else
            (case (if unmonitor_ids \<noteq> [] then monitor_media_episodes R unmonitor_ids False st1
                   else (st1, Inr ())) of
               (st2, Inl err) \<Rightarrow> (st2, Inr 0)
             | (st2, Inr _) \<Rightarrow>
                 if delete_ids \<noteq> [] then
                   (case delete_media_episodes R delete_ids st2 of
                      (st3, Inl err) \<Rightarrow> (st3, Inr 0)
                    | (st3, Inr _) \<Rightarrow>
                        let original_size_on_disk = series_size_on_disk s in
                        (case put_media R (unmonitor_empty_seasons s) st3 of
                           (st4, Inl err) \<Rightarrow> (st4, Inr 0)
                         | (st4, Inr s') \<Rightarrow>
                             (st4, Inr (original_size_on_disk - series_size_on_disk s'))))
                 else (st2, Inr 0)))"

text \<open>The body of the \<^verbatim>\<open>for series in media\<close> loop of \<^verbatim>\<open>get_and_delete_media\<close>.\<close>

definition sonarr_item ::
  "remote \<Rightarrow> config \<Rightarrow> int list \<Rightarrow> bool \<Rightarrow> series \<Rightarrow> state \<Rightarrow> state \<times> (error + unit)" where
  "sonarr_item R cfg exempt_tag_ids dry_run s st =
     (let key = py_str (tvdbId s) in
      if media_to_delete st key = None then (note_disposition NotCandidate st, Inr ())
      else if is_exempt exempt_tag_ids (series_tags s) then
        (note_disposition ExemptSkip (st\<lparr>media_to_delete := (media_to_delete st)(key := None)\<rparr>),
         Inr ())
      else if series_id s \<noteq> None then
        (if \<not> monitor_continuing_series cfg \<or> get_or (ended s) False then
           (case handle_ended_series R s dry_run st of
              (st', freed) \<Rightarrow>
                (note_disposition Deleted (st'\<lparr>total_size := total_size st' + freed\<rparr>), Inr ()))
         else
           (case handle_continuing_series R cfg s dry_run st of
              (st', Inl err) \<Rightarrow> (st', Inl err)
            | (st', Inr freed) \<Rightarrow>
                (note_disposition Trimmed (st'\<lparr>total_size := total_size st' + freed\<rparr>), Inr ())))
      else (note_disposition NoOp st, Inr ()))"

fun sonarr_loop ::
  "remote \<Rightarrow> config \<Rightarrow> int list \<Rightarrow> bool \<Rightarrow> series list \<Rightarrow> state \<Rightarrow> state \<times> (error + unit)"
where
  "sonarr_loop R cfg exempt_tag_ids dry_run [] st = (st, Inr ())"
| "sonarr_loop R cfg exempt_tag_ids dry_run (s # media) st =
     (case sonarr_item R cfg exempt_tag_ids dry_run s st of
        (st', Inl err) \<Rightarrow> (st', Inl err)
      | (st', Inr _) \<Rightarrow> sonarr_loop R cfg exempt_tag_ids dry_run media st')"

text \<open>
  \<^verbatim>\<open>SonarrClient.get_and_delete_media\<close>. The argument dictionary is the field
  \<open>media_to_delete\<close> of the incoming state; the value returned is that same dictionary.
\<close>

definition sonarr_get_and_delete_media ::
  "remote \<Rightarrow> config \<Rightarrow> bool \<Rightarrow> state \<Rightarrow> state \<times> (error + (string \<rightharpoonup> string))" where
  "sonarr_get_and_delete_media R cfg dry_run st =
     (case sonarr_get_media R st of
        (st1, Inl err) \<Rightarrow> (st1, Inl err)
      | (st1, Inr media) \<Rightarrow>
          (case sonarr_get_exempt_tag_ids R (sonarr_exempt_tag_names cfg) st1 of
             (st2, Inl err) \<Rightarrow> (st2, Inl err)
           | (st2, Inr exempt_tag_ids) \<Rightarrow>
               (case sonarr_loop R cfg exempt_tag_ids dry_run media (st2\<lparr>total_size := 0\<rparr>) of
                  (st3, Inl err) \<Rightarrow> (st3, Inl err)
                | (st3, Inr _) \<Rightarrow> (st3, Inr (media_to_delete st3)))))"

section \<open>The Radarr client\<close>

definition radarr_get_media :: "remote \<Rightarrow> state \<Rightarrow> state \<times> (error + movie list)" where
  "radarr_get_media R st =
     (let st' = send Radarr_GET_movie st in
      if \<not> status_ok R (trace st') then (st', Inl RequestException)
      else (st', Inr (movie_body R (trace st'))))"

definition radarr_get_exempt_tag_ids ::
  "remote \<Rightarrow> string list \<Rightarrow> state \<Rightarrow> state \<times> (error + int list)" where
  "radarr_get_exempt_tag_ids R tag_names st =
     (let st' = send Radarr_GET_tag st in
      if \<not> status_ok R (trace st') then (st', Inl RequestException)
      else (st', Inr (matching_tag_ids tag_names (tag_body R (trace st')))))"

definition radarr_delete_media :: "remote \<Rightarrow> int option \<Rightarrow> state \<Rightarrow> state \<times> (error + unit)" where
  "radarr_delete_media R media_id st =
     (let st' = send (Radarr_DELETE_movie media_id) st in
      if \<not> status_ok R (trace st') then (st', Inl RequestException) else (st', Inr ()))"

text \<open>
  The body of the \<^verbatim>\<open>for movie in media\<close> loop. The size is added to \<^verbatim>\<open>total_size\<close>
  before the dry-run test and before the delete request; the \<^verbatim>\<open>except\<close> clause logs and
  continues.
\<close>

definition radarr_item :: "remote \<Rightarrow> int list \<Rightarrow> bool \<Rightarrow> movie \<Rightarrow> state \<Rightarrow> state" where
  "radarr_item R exempt_tag_ids dry_run mv st =
     (let key = py_str (tmdbId mv) in
      if media_to_delete st key = None then note_disposition NotCandidate st
      else if is_exempt exempt_tag_ids (movie_tags mv) then
        note_disposition ExemptSkip
          (st\<lparr>media_to_delete := (media_to_delete st)(key := None),
              exempt_count := exempt_count st + 1\<rparr>)
      else if movie_id mv \<noteq> None then
        (let st1 = st\<lparr>total_size := total_size st + get_or (movie_sizeOnDisk mv) 0\<rparr> in
         if dry_run then note_disposition Deleted st1
         else (case radarr_delete_media R (movie_id mv) st1 of
                 (st2, Inr _) \<Rightarrow> note_disposition Deleted st2
               | (st2, Inl err) \<Rightarrow> note_disposition Deleted st2))
      else note_disposition NoOp st)"

fun radarr_loop :: "remote \<Rightarrow> int list \<Rightarrow> bool \<Rightarrow> movie list \<Rightarrow> state \<Rightarrow> state" where
  "radarr_loop R exempt_tag_ids dry_run [] st = st"
| "radarr_loop R exempt_tag_ids dry_run (mv # media) st =
     radarr_loop R exempt_tag_ids dry_run media (radarr_item R exempt_tag_ids dry_run mv st)"

text \<open>The undecorated function \<^verbatim>\<open>RadarrClient.get_and_delete_media\<close>: one execution.\<close>

definition radarr_batch ::
  "remote \<Rightarrow> config \<Rightarrow> bool \<Rightarrow> state \<Rightarrow> state \<times> (error + (string \<rightharpoonup> string))" where
  "radarr_batch R cfg dry_run st =
     (case radarr_get_media R st of
        (st1, Inl err) \<Rightarrow> (st1, Inl err)
      | (st1, Inr media) \<Rightarrow>
          (case radarr_get_exempt_tag_ids R (radarr_exempt_tag_names cfg) st1 of
             (st2, Inl err) \<Rightarrow> (st2, Inl err)
           | (st2, Inr exempt_tag_ids) \<Rightarrow>
               (let st3 = radarr_loop R exempt_tag_ids dry_run media
                            (st2\<lparr>exempt_count := 0, total_size := 0\<rparr>)
                in (st3, Inr (media_to_delete st3)))))"

text \<open>
  The decorator \<^verbatim>\<open>@retry(tries=3, delay=5)\<close> of the \<^verbatim>\<open>retry\<close> package, with its default
  \<^verbatim>\<open>exceptions=Exception\<close>, \<^verbatim>\<open>backoff=1\<close> and \<^verbatim>\<open>jitter=0\<close>: the function is called
  until it returns; each exception uses up one try, the last one is raised again, and
  before every new attempt the decorator sleeps \<open>delay\<close> seconds. With no tries at all the
  function is never called and the decorator returns \<^verbatim>\<open>None\<close>.
\<close>

fun retry ::
  "nat \<Rightarrow> nat \<Rightarrow> (state \<Rightarrow> state \<times> (error + 'a)) \<Rightarrow> state \<Rightarrow> state \<times> (error + 'a option)"
where
  "retry 0 delay f st = (st, Inr None)"
| "retry (Suc tries) delay f st =
     (case f st of
        (st', Inr v) \<Rightarrow> (st', Inr (Some v))
      | (st', Inl err) \<Rightarrow>
          if tries = 0 then (st', Inl err)
          else retry tries delay f (send (Sleep delay) st'))"

definition radarr_get_and_delete_media ::
  "remote \<Rightarrow> config \<Rightarrow> bool \<Rightarrow> state \<Rightarrow> state \<times> (error + (string \<rightharpoonup> string) option)" where
  "radarr_get_and_delete_media R cfg dry_run st = retry 3 5 (radarr_batch R cfg dry_run) st"

text \<open>
  The defining equations of \<open>retry\<close> are unfolded by name only, one attempt at a time.
\<close>

declare retry.simps [simp del]

text \<open>The requests that change the remote's data.\<close>

fun mutating :: "call \<Rightarrow> bool" where
  "mutating (Sonarr_PUT_series _) = True"
| "mutating (Sonarr_PUT_episode_monitor _ _) = True"
| "mutating (Sonarr_DELETE_series _) = True"
| "mutating (Sonarr_DELETE_episodefile_bulk _) = True"
| "mutating (Radarr_DELETE_movie _) = True"
| "mutating _ = False"

text \<open>The requests sent between two states of a run.\<close>

definition new_calls :: "state \<Rightarrow> state \<Rightarrow> call list" where
  "new_calls st st' = drop (length (trace st)) (trace st')"

section \<open>Example inputs\<close>

definition example_episode :: "int \<Rightarrow> int \<Rightarrow> int \<Rightarrow> bool \<Rightarrow> bool \<Rightarrow> int \<Rightarrow> episode" where
  "example_episode i sn en mon hf fid =
     \<lparr>episode_id = Some i, seasonNumber = sn, episodeNumber = en, monitored = Some mon,
      hasFile = Some hf, episodeFileId = Some fid\<rparr>"

definition example_config :: "int \<Rightarrow> config" where
  "example_config n =
     \<lparr>radarr_exempt_tag_names = [''keep''], sonarr_exempt_tag_names = [''keep''],
      monitor_continuing_series = True, episodes_to_load = n\<rparr>"

definition example_season :: "bool \<Rightarrow> int \<Rightarrow> season" where
  "example_season mon n =
     \<lparr>season_monitored = Some mon,
      season_statistics = Some \<lparr>episodeCount = Some n, sizeOnDisk = None\<rparr>\<rparr>"

definition example_series :: "int \<Rightarrow> int \<Rightarrow> int list \<Rightarrow> bool \<Rightarrow> int \<Rightarrow> series" where
  "example_series i tv tgs e sz =
     \<lparr>series_id = Some i, tvdbId = Some tv, series_title = Some ''Show'',
      series_tags = Some tgs, ended = Some e,
      seasons = Some [example_season True 0, example_season True 2],
      series_statistics = Some \<lparr>episodeCount = Some 2, sizeOnDisk = Some sz\<rparr>\<rparr>"

definition example_movie :: "int \<Rightarrow> int \<Rightarrow> int list \<Rightarrow> int \<Rightarrow> movie" where
  "example_movie i tm tgs sz =
     \<lparr>movie_id = Some i, tmdbId = Some tm, movie_title = Some ''Film'',
      movie_tags = Some tgs, movie_sizeOnDisk = Some sz\<rparr>"

text \<open>
  A remote whose bodies do not depend on the history and whose tag catalogue gives the
  label \<^verbatim>\<open>keep\<close> the id 9.
\<close>

definition example_remote ::
  "(call list \<Rightarrow> bool) \<Rightarrow> series list \<Rightarrow> episode list \<Rightarrow> series \<Rightarrow> movie list \<Rightarrow> remote" where
  "example_remote ok ss eps s' ms =
     \<lparr>status_ok = ok, series_body = (\<lambda>h. ss),
      tag_body = (\<lambda>h. [\<lparr>tag_id = 9, label = ''keep''\<rparr>, \<lparr>tag_id = 3, label = ''other''\<rparr>]),
      episode_body = (\<lambda>h. eps), put_series_body = (\<lambda>h. s'), movie_body = (\<lambda>h. ms)\<rparr>"

definition example_state :: "(string \<rightharpoonup> string) \<Rightarrow> state" where
  "example_state m =
     \<lparr>trace = [], media_to_delete = m, total_size = 0, exempt_count = 0, dispositions = []\<rparr>"

text \<open>
  A status function that accepts every request but the two item-level delete requests.
\<close>

definition deletes_fail :: "call list \<Rightarrow> bool" where
  "deletes_fail h =
     (case rev h of
        [] \<Rightarrow> False
      | c # _ \<Rightarrow>
          (case c of
             Radarr_DELETE_movie _ \<Rightarrow> False
           | Sonarr_DELETE_series _ \<Rightarrow> False
           | _ \<Rightarrow> True))"

text \<open>
  A library with an exempt and a continuing series and with an exempt and a plain movie,
  and a candidate mapping that holds all of them.
\<close>

definition example_library :: remote where
  "example_library =
     example_remote (\<lambda>h. True)
       [example_series 1 10 [9] False 500, example_series 2 42 [] False 1000]
       [example_episode 1 1 1 True True 6, example_episode 2 1 2 True True 7,
        example_episode 3 1 3 False True 7]
       (example_series 2 42 [] False 400)
       [example_movie 1 10 [9] 500, example_movie 2 42 [] 1000]"

definition example_candidates :: state where
  "example_candidates = example_state [''10'' \<mapsto> ''A'', ''42'' \<mapsto> ''B'']"

section \<open>The episode window\<close>

lemma py_slice_from_nonneg: "0 \<le> n \<Longrightarrow> py_slice_from xs n = drop (nat n) xs"
  by (simp add: py_slice_from_def)

lemma drop_as_indices: "drop k xs = map (nth xs) (filter (\<lambda>i. k \<le> i) [0..<length xs])"
proof -
  have "filter (\<lambda>i. k \<le> i) [0..<length xs] = [k..<length xs]"
  proof (cases "k \<le> length xs")
    case True
    then have "[0..<length xs] = [0..<k] @ [k..<length xs]"
      by (metis le0 upt_add_eq_append le_add_diff_inverse)
    then show ?thesis by (simp add: filter_empty_conv)
  next
    case False
    then show ?thesis by (auto simp: filter_empty_conv)
  qed
  moreover have "drop k xs = drop k (map (nth xs) [0..<length xs])"
    by (simp add: map_nth)
  ultimately show ?thesis by (simp add: drop_map)
qed

lemma sorted_episodes_props:
  "(\<forall>e \<in> set (sorted_episodes eps). seasonNumber e \<noteq> 0) \<and>
   mset (sorted_episodes eps) = filter_mset (\<lambda>e. seasonNumber e \<noteq> 0) (mset eps) \<and>
   sorted_wrt (\<lambda>a b. seasonNumber a < seasonNumber b \<or>
                 (seasonNumber a = seasonNumber b \<and> episodeNumber a \<le> episodeNumber b))
     (sorted_episodes eps)"
proof -
  have "sorted (map episode_key (sorted_episodes eps))"
    by (simp add: sorted_episodes_def)
  then have "sorted_wrt (\<lambda>a b. episode_key a \<le> episode_key b) (sorted_episodes eps)"
    by (simp add: sorted_map)
  then have "sorted_wrt (\<lambda>a b. seasonNumber a < seasonNumber b \<or>
                 (seasonNumber a = seasonNumber b \<and> episodeNumber a \<le> episodeNumber b))
     (sorted_episodes eps)"
    by (rule sorted_wrt_mono_rel[rotated]) (auto simp: episode_key_def)
  then show ?thesis
    by (simp add: sorted_episodes_def filtered_episodes_def)
qed

lemma retain_unique:
  "(retain @ drop k xs = xs) = (retain = take (min k (length xs)) xs)"
proof
  assume a: "retain @ drop k xs = xs"
  then have "length retain + (length xs - k) = length xs"
    by (metis length_append length_drop)
  then have l: "length retain = min k (length xs)" by arith
  have "take (length retain) (retain @ drop k xs) = retain" by simp
  then show "retain = take (min k (length xs)) xs" using a l by metis
next
  assume "retain = take (min k (length xs)) xs"
  then show "retain @ drop k xs = xs"
    by (simp add: min_def)
qed

text \<open>
  C1, as amended. For a retain count that is not negative: the window selector drops
  the season-0 episodes, keeps every other episode exactly once, orders them ascending
  by season number and then episode number, and unloads exactly the elements at index
  at least the retain count. The retained part, the list that put in front of the
  unloaded part gives back the sorted list, is exactly its first
  \<open>min retain_count N\<close> elements.
\<close>

theorem episode_window_partition:
  assumes "0 \<le> episodes_to_load cfg"
  shows "(\<forall>e \<in> set (sorted_episodes eps). seasonNumber e \<noteq> 0) \<and>
   mset (sorted_episodes eps) = filter_mset (\<lambda>e. seasonNumber e \<noteq> 0) (mset eps) \<and>
   sorted_wrt (\<lambda>a b. seasonNumber a < seasonNumber b \<or>
                 (seasonNumber a = seasonNumber b \<and> episodeNumber a \<le> episodeNumber b))
     (sorted_episodes eps) \<and>
   episodes_to_unload cfg eps =
     map (nth (sorted_episodes eps))
       (filter (\<lambda>i. episodes_to_load cfg \<le> int i) [0..<length (sorted_episodes eps)]) \<and>
   (\<forall>retain. (retain @ episodes_to_unload cfg eps = sorted_episodes eps) =
      (retain = take (min (nat (episodes_to_load cfg)) (length (sorted_episodes eps)))
                  (sorted_episodes eps))) \<and>
   length (take (min (nat (episodes_to_load cfg)) (length (sorted_episodes eps)))
             (sorted_episodes eps)) =
     min (nat (episodes_to_load cfg)) (length (sorted_episodes eps))"
proof -
  have u: "episodes_to_unload cfg eps = drop (nat (episodes_to_load cfg)) (sorted_episodes eps)"
    using assms by (simp add: episodes_to_unload_def py_slice_from_nonneg)
  have f: "(\<lambda>i. episodes_to_load cfg \<le> int i) = (\<lambda>i. nat (episodes_to_load cfg) \<le> i)"
    using assms by (auto simp: fun_eq_iff)
  have i: "episodes_to_unload cfg eps =
     map (nth (sorted_episodes eps))
       (filter (\<lambda>i. episodes_to_load cfg \<le> int i) [0..<length (sorted_episodes eps)])"
    unfolding u f by (rule drop_as_indices)
  have r: "\<forall>retain. (retain @ episodes_to_unload cfg eps = sorted_episodes eps) =
      (retain = take (min (nat (episodes_to_load cfg)) (length (sorted_episodes eps)))
                  (sorted_episodes eps))"
    unfolding u by (simp add: retain_unique)
  show ?thesis
    using sorted_episodes_props[of eps] i r by simp
qed

text \<open>
  Three episodes, one of them a special, with a retain count of 1: the hypothesis holds
  and the second regular episode is the one unloaded.
\<close>

theorem episode_window_partition_witness:
  "0 \<le> episodes_to_load (example_config 1) \<and>
   episodes_to_unload (example_config 1)
     [example_episode 2 1 2 True True 7, example_episode 0 0 1 True True 5,
      example_episode 1 1 1 True True 7] = [example_episode 2 1 2 True True 7] \<and>
   length (take (min (nat (episodes_to_load (example_config 1)))
       (length (sorted_episodes
         [example_episode 2 1 2 True True 7, example_episode 0 0 1 True True 5,
          example_episode 1 1 1 True True 7])))
     (sorted_episodes
       [example_episode 2 1 2 True True 7, example_episode 0 0 1 True True 5,
        example_episode 1 1 1 True True 7])) = 1"
proof -
  have h: "0 \<le> episodes_to_load (example_config 1)"
    by (simp add: example_config_def)
  have s: "sorted_episodes
       [example_episode 2 1 2 True True 7, example_episode 0 0 1 True True 5,
        example_episode 1 1 1 True True 7] =
     [example_episode 1 1 1 True True 7, example_episode 2 1 2 True True 7]"
    by (simp add: sorted_episodes_def filtered_episodes_def example_episode_def episode_key_def)
  have n: "nat (episodes_to_load (example_config 1)) = 1"
    by (simp add: example_config_def)
  show ?thesis
    using h episode_window_partition[OF h,
        of "[example_episode 2 1 2 True True 7, example_episode 0 0 1 True True 5,
             example_episode 1 1 1 True True 7]"]
    by (simp add: s n example_config_def)
qed

text \<open>
  C1 as stated fails for a negative retain count. With \<^verbatim>\<open>episodes_to_load = -1\<close> the
  slice \<^verbatim>\<open>sorted_episodes[-1:]\<close> is the last episode only: the first of two episodes
  is at index 0, which is at least \<open>-1\<close>, and is not unloaded.
\<close>

theorem episode_window_negative_counterexample:
  "episodes_to_load (example_config (- 1)) \<le> int 0 \<and>
   0 < length (sorted_episodes
         [example_episode 1 1 1 True True 7, example_episode 2 1 2 True True 8]) \<and>
   sorted_episodes [example_episode 1 1 1 True True 7, example_episode 2 1 2 True True 8] ! 0
     \<notin> set (episodes_to_unload (example_config (- 1))
         [example_episode 1 1 1 True True 7, example_episode 2 1 2 True True 8])"
  by (simp add: episodes_to_unload_def py_slice_from_def sorted_episodes_def
      filtered_episodes_def example_episode_def episode_key_def example_config_def)

section \<open>The ids collected from the episodes to unload\<close>

lemma collect_ids_snd:
  "distinct del \<Longrightarrow>
   distinct (snd (collect_ids es um del)) \<and>
   set (snd (collect_ids es um del)) =
     set del \<union> {episodeFileId e | e. e \<in> set es \<and> get_or (hasFile e) False}"
proof (induction es arbitrary: um del)
  case Nil
  then show ?case by simp
next
  case (Cons e es)
  show ?case
  proof (cases "get_or (hasFile e) False \<and> episodeFileId e \<notin> set del")
    case True
    then have d: "distinct (del @ [episodeFileId e])" using Cons.prems by simp
    show ?thesis using True Cons.IH[OF d] by auto
  next
    case False
    then show ?thesis using Cons.IH[OF Cons.prems] by auto
  qed
qed

lemma collect_ids_fst:
  "fst (collect_ids es um del) =
     um @ map episode_id (filter (\<lambda>e. get_or (monitored e) False) es)"
  by (induction es arbitrary: um del) auto

lemma distinct_count_list_one: "distinct xs \<Longrightarrow> x \<in> set xs \<Longrightarrow> count_list xs x = 1"
  by (induction xs) auto


text \<open>
  C6. The file ids queued for deletion have no duplicates; the file id of every episode
  to unload that has a file occurs exactly once, however many episodes share it; and
  every queued id is the file id of an episode to unload that has a file.
\<close>

theorem delete_file_ids_deduplicated:
  "distinct (delete_episode_file_ids unload) \<and>
   (\<forall>e \<in> set unload. get_or (hasFile e) False \<longrightarrow>
      count_list (delete_episode_file_ids unload) (episodeFileId e) = 1) \<and>
   (\<forall>fid \<in> set (delete_episode_file_ids unload).
      \<exists>e \<in> set unload. get_or (hasFile e) False \<and> episodeFileId e = fid)"
proof -
  have d: "distinct (delete_episode_file_ids unload)"
    and s: "set (delete_episode_file_ids unload) =
      {episodeFileId e | e. e \<in> set unload \<and> get_or (hasFile e) False}"
    using collect_ids_snd[of "[]" unload "[]"] by (simp_all add: delete_episode_file_ids_def)
  have c: "count_list (delete_episode_file_ids unload) (episodeFileId e) = 1"
    if "e \<in> set unload" "get_or (hasFile e) False" for e
  proof -
    have "episodeFileId e \<in> set (delete_episode_file_ids unload)" using that s by auto
    then show ?thesis using d by (simp add: distinct_count_list_one)
  qed
  show ?thesis using d s c by auto
qed

text \<open>
  Two episodes that share the file 7 and a third without a file: the shared id is queued
  once, the id of the missing file is not queued.
\<close>

theorem delete_file_ids_deduplicated_witness:
  "example_episode 2 1 2 True True 7 \<in>
     set [example_episode 1 1 1 True True 7, example_episode 2 1 2 True True 7,
          example_episode 3 1 3 True False 0] \<and>
   get_or (hasFile (example_episode 2 1 2 True True 7)) False \<and>
   count_list
     (delete_episode_file_ids
        [example_episode 1 1 1 True True 7, example_episode 2 1 2 True True 7,
         example_episode 3 1 3 True False 0])
     (episodeFileId (example_episode 2 1 2 True True 7)) = 1"
proof -
  have m: "example_episode 2 1 2 True True 7 \<in>
     set [example_episode 1 1 1 True True 7, example_episode 2 1 2 True True 7,
          example_episode 3 1 3 True False 0]"
    by simp
  have f: "get_or (hasFile (example_episode 2 1 2 True True 7)) False"
    by (simp add: example_episode_def get_or_def)
  show ?thesis
    using m f delete_file_ids_deduplicated[of
        "[example_episode 1 1 1 True True 7, example_episode 2 1 2 True True 7,
          example_episode 3 1 3 True False 0]"]
    by blast
qed

section \<open>Requests and frames of the client functions\<close>

lemma new_calls_append: "trace st' = trace st @ cs \<Longrightarrow> new_calls st st' = cs"
  by (simp add: new_calls_def)

lemma send_simps:
  "trace (send c st) = trace st @ [c]"
  "media_to_delete (send c st) = media_to_delete st"
  "total_size (send c st) = total_size st"
  "exempt_count (send c st) = exempt_count st"
  "dispositions (send c st) = dispositions st"
  by (simp_all add: send_def)

lemma note_disposition_simps:
  "trace (note_disposition d st) = trace st"
  "media_to_delete (note_disposition d st) = media_to_delete st"
  "total_size (note_disposition d st) = total_size st"
  "exempt_count (note_disposition d st) = exempt_count st"
  "dispositions (note_disposition d st) = dispositions st @ [d]"
  by (simp_all add: note_disposition_def)

lemma handle_ended_series_state:
  "fst (handle_ended_series R s dry_run st) =
     (if dry_run then st else send (Sonarr_DELETE_series (series_id s)) st) \<and>
   snd (handle_ended_series R s dry_run st) = series_size_on_disk s"
  by (simp add: handle_ended_series_def sonarr_delete_media_def Let_def)

lemma handle_continuing_series_state:
  fixes R cfg s dry_run st
  defines "G \<equiv> Sonarr_GET_episode (series_id s)"
  defines "unload \<equiv> episodes_to_unload cfg (episode_body R (trace st @ [G]))"
  defines "M \<equiv> (if unmonitor_episode_ids unload \<noteq> []
                 then [Sonarr_PUT_episode_monitor (unmonitor_episode_ids unload) False] else [])"
  defines "D \<equiv> Sonarr_DELETE_episodefile_bulk (delete_episode_file_ids unload)"
  defines "P \<equiv> Sonarr_PUT_series (unmonitor_empty_seasons s)"
  defines "rest \<equiv>
     (if \<not> status_ok R (trace st @ [G]) \<or> dry_run then []
      else if unmonitor_episode_ids unload \<noteq> [] \<and> \<not> status_ok R (trace st @ G # M) then M
      else if delete_episode_file_ids unload = [] then M
      else if \<not> status_ok R (trace st @ G # M @ [D]) then M @ [D]
      else M @ [D, P])"
  shows "fst (handle_continuing_series R cfg s dry_run st) = st\<lparr>trace := trace st @ G # rest\<rparr>"
  unfolding rest_def G_def unload_def M_def D_def P_def
  by (simp add: handle_continuing_series_def get_media_episodes_def monitor_media_episodes_def
      delete_media_episodes_def put_media_def Let_def send_def)

lemma handle_continuing_series_calls:
  fixes R cfg s dry_run st
  defines "G \<equiv> Sonarr_GET_episode (series_id s)"
  defines "unload \<equiv> episodes_to_unload cfg (episode_body R (trace st @ [G]))"
  defines "M \<equiv> (if unmonitor_episode_ids unload \<noteq> []
                 then [Sonarr_PUT_episode_monitor (unmonitor_episode_ids unload) False] else [])"
  defines "D \<equiv> Sonarr_DELETE_episodefile_bulk (delete_episode_file_ids unload)"
  defines "P \<equiv> Sonarr_PUT_series (unmonitor_empty_seasons s)"
  shows "\<exists>rest. fst (handle_continuing_series R cfg s dry_run st) =
            st\<lparr>trace := trace st @ G # rest\<rparr> \<and>
          (rest = [] \<or> rest = M \<or> rest = M @ [D] \<or> rest = M @ [D, P]) \<and>
          (dry_run \<longrightarrow> rest = [])"
proof -
  define rest where "rest =
     (if \<not> status_ok R (trace st @ [G]) \<or> dry_run then []
      else if unmonitor_episode_ids unload \<noteq> [] \<and> \<not> status_ok R (trace st @ G # M) then M
      else if delete_episode_file_ids unload = [] then M
      else if \<not> status_ok R (trace st @ G # M @ [D]) then M @ [D]
      else M @ [D, P])"
  have 1: "fst (handle_continuing_series R cfg s dry_run st) = st\<lparr>trace := trace st @ G # rest\<rparr>"
    unfolding rest_def G_def unload_def M_def D_def P_def
    by (rule handle_continuing_series_state)
  have 2: "rest = [] \<or> rest = M \<or> rest = M @ [D] \<or> rest = M @ [D, P]"
    unfolding rest_def by presburger
  have 3: "dry_run \<longrightarrow> rest = []"
    unfolding rest_def by simp
  show ?thesis using 1 2 3 by blast
qed

lemma handle_continuing_series_frame:
  "media_to_delete (fst (handle_continuing_series R cfg s dry_run st)) = media_to_delete st"
  "total_size (fst (handle_continuing_series R cfg s dry_run st)) = total_size st"
  "exempt_count (fst (handle_continuing_series R cfg s dry_run st)) = exempt_count st"
  "dispositions (fst (handle_continuing_series R cfg s dry_run st)) = dispositions st"
  by (simp_all add: handle_continuing_series_state)

lemma handle_continuing_series_raises:
  "(snd (handle_continuing_series R cfg s dry st) = Inl e) =
     (\<not> status_ok R (trace st @ [Sonarr_GET_episode (series_id s)]))"
  by (cases e)
     (simp add: handle_continuing_series_def get_media_episodes_def monitor_media_episodes_def
      delete_media_episodes_def put_media_def Let_def send_def)

lemma unmonitor_empty_seasons_props:
  "length (get_or (seasons (unmonitor_empty_seasons s)) []) = length (get_or (seasons s) []) \<and>
   (\<forall>i < length (get_or (seasons s) []).
      (season_episode_count (get_or (seasons s) [] ! i) = 0 \<longrightarrow>
         \<not> get_or (season_monitored (get_or (seasons (unmonitor_empty_seasons s)) [] ! i)) False) \<and>
      (season_episode_count (get_or (seasons s) [] ! i) > 0 \<longrightarrow>
         get_or (seasons (unmonitor_empty_seasons s)) [] ! i = get_or (seasons s) [] ! i) \<and>
      season_statistics (get_or (seasons (unmonitor_empty_seasons s)) [] ! i) =
        season_statistics (get_or (seasons s) [] ! i)) \<and>
   unmonitor_empty_seasons s = s\<lparr>seasons := seasons (unmonitor_empty_seasons s)\<rparr>"
  by (cases "seasons s")
     (auto simp add: unmonitor_empty_seasons_def unmonitor_season_def get_or_def)

section \<open>Facts about the example inputs\<close>

lemmas example_defs =
  example_episode_def example_config_def example_season_def example_series_def
  example_movie_def example_remote_def example_state_def

lemmas window_defs =
  episodes_to_unload_def py_slice_from_def sorted_episodes_def filtered_episodes_def
  episode_key_def unmonitor_episode_ids_def delete_episode_file_ids_def get_or_def

lemma example_remote_simps:
  "status_ok (example_remote ok ss eps s' ms) h = ok h"
  "series_body (example_remote ok ss eps s' ms) h = ss"
  "tag_body (example_remote ok ss eps s' ms) h =
     [\<lparr>tag_id = 9, label = ''keep''\<rparr>, \<lparr>tag_id = 3, label = ''other''\<rparr>]"
  "episode_body (example_remote ok ss eps s' ms) h = eps"
  "put_series_body (example_remote ok ss eps s' ms) h = s'"
  "movie_body (example_remote ok ss eps s' ms) h = ms"
  by (simp_all add: example_remote_def)

lemma example_exempt_ids:
  "matching_tag_ids (sonarr_exempt_tag_names (example_config n))
     [\<lparr>tag_id = 9, label = ''keep''\<rparr>, \<lparr>tag_id = 3, label = ''other''\<rparr>] = [9]"
  "matching_tag_ids (radarr_exempt_tag_names (example_config n))
     [\<lparr>tag_id = 9, label = ''keep''\<rparr>, \<lparr>tag_id = 3, label = ''other''\<rparr>] = [9]"
  by (simp_all add: matching_tag_ids_def example_config_def)

lemma example_config_simps:
  "monitor_continuing_series (example_config n)" "episodes_to_load (example_config n) = n"
  by (simp_all add: example_config_def)

lemma py_str_10: "py_str (Some 10) = ''10''"
  by (simp add: py_str_def str_int_def str_nat.simps digit_char_def)

lemma example_series_simps:
  "series_id (example_series i tv tgs e sz) = Some i"
  "tvdbId (example_series i tv tgs e sz) = Some tv"
  "series_tags (example_series i tv tgs e sz) = Some tgs"
  "ended (example_series i tv tgs e sz) = Some e"
  "series_size_on_disk (example_series i tv tgs e sz) = sz"
  by (simp_all add: example_series_def series_size_on_disk_def get_or_def)

lemma example_movie_simps:
  "movie_id (example_movie i tm tgs sz) = Some i"
  "tmdbId (example_movie i tm tgs sz) = Some tm"
  "movie_tags (example_movie i tm tgs sz) = Some tgs"
  "movie_sizeOnDisk (example_movie i tm tgs sz) = Some sz"
  by (simp_all add: example_movie_def)

lemma py_str_42: "py_str (Some 42) = ''42''"
  by (simp add: py_str_def str_int_def str_nat.simps digit_char_def)

lemma example_unload:
  "episodes_to_unload (example_config 1)
     [example_episode 1 1 1 True True 6, example_episode 2 1 2 True True 7,
      example_episode 3 1 3 False True 7] =
   [example_episode 2 1 2 True True 7, example_episode 3 1 3 False True 7]"
  "unmonitor_episode_ids [example_episode 2 1 2 True True 7, example_episode 3 1 3 False True 7]
     = [Some 2]"
  "delete_episode_file_ids [example_episode 2 1 2 True True 7, example_episode 3 1 3 False True 7]
     = [Some 7]"
  by (simp_all add: example_defs window_defs)

section \<open>One pass of the loops\<close>

lemma sonarr_item_cases:
  "fst (sonarr_item R cfg ex dry s st) = note_disposition NotCandidate st \<or>
   fst (sonarr_item R cfg ex dry s st) =
     note_disposition ExemptSkip (st\<lparr>media_to_delete := (media_to_delete st)(py_str (tvdbId s) := None)\<rparr>) \<or>
   fst (sonarr_item R cfg ex dry s st) = note_disposition NoOp st \<or>
   (\<not> is_exempt ex (series_tags s) \<and>
    fst (sonarr_item R cfg ex dry s st) =
      note_disposition Deleted
        ((fst (handle_ended_series R s dry st))
           \<lparr>total_size := total_size st + series_size_on_disk s\<rparr>)) \<or>
   (\<not> is_exempt ex (series_tags s) \<and>
    fst (sonarr_item R cfg ex dry s st) = fst (handle_continuing_series R cfg s dry st)) \<or>
   (\<not> is_exempt ex (series_tags s) \<and>
    (\<exists>freed. fst (sonarr_item R cfg ex dry s st) =
      note_disposition Trimmed
        ((fst (handle_continuing_series R cfg s dry st))\<lparr>total_size := total_size st + freed\<rparr>)))"
  by (auto simp add: sonarr_item_def Let_def case_prod_beta handle_ended_series_state
      handle_continuing_series_frame send_simps split: sum.splits)

lemma sonarr_item_trace:
  "\<exists>cs. trace (fst (sonarr_item R cfg ex dry s st)) = trace st @ cs \<and>
     Sonarr_GET_series \<notin> set cs \<and> (\<forall>d. Sleep d \<notin> set cs) \<and>
     (dry \<longrightarrow> (\<forall>c \<in> set cs. \<not> mutating c))"
proof -
  obtain rest where
    h: "fst (handle_continuing_series R cfg s dry st) =
          st\<lparr>trace := trace st @ Sonarr_GET_episode (series_id s) # rest\<rparr>"
    and r: "rest = [] \<or>
      rest = (if unmonitor_episode_ids (episodes_to_unload cfg (episode_body R
                 (trace st @ [Sonarr_GET_episode (series_id s)]))) \<noteq> []
              then [Sonarr_PUT_episode_monitor (unmonitor_episode_ids (episodes_to_unload cfg
                 (episode_body R (trace st @ [Sonarr_GET_episode (series_id s)])))) False]
              else []) \<or>
      rest = (if unmonitor_episode_ids (episodes_to_unload cfg (episode_body R
                 (trace st @ [Sonarr_GET_episode (series_id s)]))) \<noteq> []
              then [Sonarr_PUT_episode_monitor (unmonitor_episode_ids (episodes_to_unload cfg
                 (episode_body R (trace st @ [Sonarr_GET_episode (series_id s)])))) False]
              else []) @
             [Sonarr_DELETE_episodefile_bulk (delete_episode_file_ids (episodes_to_unload cfg
                 (episode_body R (trace st @ [Sonarr_GET_episode (series_id s)]))))] \<or>
      rest = (if unmonitor_episode_ids (episodes_to_unload cfg (episode_body R
                 (trace st @ [Sonarr_GET_episode (series_id s)]))) \<noteq> []
              then [Sonarr_PUT_episode_monitor (unmonitor_episode_ids (episodes_to_unload cfg
                 (episode_body R (trace st @ [Sonarr_GET_episode (series_id s)])))) False]
              else []) @
             [Sonarr_DELETE_episodefile_bulk (delete_episode_file_ids (episodes_to_unload cfg
                 (episode_body R (trace st @ [Sonarr_GET_episode (series_id s)])))),
              Sonarr_PUT_series (unmonitor_empty_seasons s)]"
    and d: "dry \<longrightarrow> rest = []"
    using handle_continuing_series_calls[of R cfg s dry st] by blast
  have g: "Sonarr_GET_series \<notin> set rest \<and> (\<forall>d. Sleep d \<notin> set rest)"
    using r by (auto split: if_splits)
  have c: "trace (fst (handle_continuing_series R cfg s dry st)) =
      trace st @ Sonarr_GET_episode (series_id s) # rest"
    using h by simp
  have e: "trace (fst (handle_ended_series R s dry st)) =
      trace st @ (if dry then [] else [Sonarr_DELETE_series (series_id s)])"
    by (simp add: handle_ended_series_state send_simps)
  consider
    (same) "trace (fst (sonarr_item R cfg ex dry s st)) = trace st"
  | (ended) "trace (fst (sonarr_item R cfg ex dry s st)) =
      trace st @ (if dry then [] else [Sonarr_DELETE_series (series_id s)])"
  | (cont) "trace (fst (sonarr_item R cfg ex dry s st)) =
      trace st @ Sonarr_GET_episode (series_id s) # rest"
    using sonarr_item_cases[of R cfg ex dry s st] c e
    by (auto simp add: note_disposition_simps)
  then show ?thesis
  proof cases
    case same
    then show ?thesis by simp
  next
    case ended
    then show ?thesis by simp
  next
    case cont
    then show ?thesis using g d by simp
  qed
qed

lemma sonarr_item_mapping:
  "media_to_delete (fst (sonarr_item R cfg ex dry s st)) =
     (if is_exempt ex (series_tags s)
      then (media_to_delete st)(py_str (tvdbId s) := None) else media_to_delete st)"
  by (auto simp add: sonarr_item_def Let_def case_prod_beta note_disposition_simps
      handle_ended_series_state send_simps handle_continuing_series_frame split: sum.splits)

lemma radarr_item_trace:
  "\<exists>cs. trace (radarr_item R ex dry mv st) = trace st @ cs \<and>
     (\<forall>c \<in> set cs. \<exists>i. c = Radarr_DELETE_movie i) \<and> (dry \<longrightarrow> cs = [])"
  by (auto simp add: radarr_item_def Let_def note_disposition_simps radarr_delete_media_def
      send_simps)

lemma radarr_item_mapping:
  "media_to_delete (radarr_item R ex dry mv st) =
     (if is_exempt ex (movie_tags mv)
      then (media_to_delete st)(py_str (tmdbId mv) := None) else media_to_delete st)"
  by (auto simp add: radarr_item_def Let_def note_disposition_simps radarr_delete_media_def
      send_simps)


lemma sonarr_item_result:
  "snd (sonarr_item R cfg ex dry s st) =
     (if media_to_delete st (py_str (tvdbId s)) \<noteq> None \<and> \<not> is_exempt ex (series_tags s) \<and>
         series_id s \<noteq> None \<and> \<not> (\<not> monitor_continuing_series cfg \<or> get_or (ended s) False) \<and>
         \<not> status_ok R (trace st @ [Sonarr_GET_episode (series_id s)])
      then Inl RequestException else Inr ())"
proof -
  have r: "(snd (handle_continuing_series R cfg s dry st) = Inl RequestException) =
     (\<not> status_ok R (trace st @ [Sonarr_GET_episode (series_id s)]))"
    by (rule handle_continuing_series_raises)
  show ?thesis
  proof (cases "snd (handle_continuing_series R cfg s dry st)")
    case (Inl e)
    then have "snd (handle_continuing_series R cfg s dry st) = Inl RequestException"
      by (cases e) simp
    then show ?thesis using r
      by (simp add: sonarr_item_def Let_def case_prod_beta)
  next
    case (Inr v)
    then show ?thesis using r
      by (simp add: sonarr_item_def Let_def case_prod_beta)
  qed
qed

lemma sonarr_item_dispositions:
  "dispositions (fst (sonarr_item R cfg ex dry s st)) =
     dispositions st @
       (if media_to_delete st (py_str (tvdbId s)) = None then [NotCandidate]
        else if is_exempt ex (series_tags s) then [ExemptSkip]
        else if series_id s \<noteq> None then
          (if \<not> monitor_continuing_series cfg \<or> get_or (ended s) False then [Deleted]
           else if status_ok R (trace st @ [Sonarr_GET_episode (series_id s)]) then [Trimmed]
           else [])
        else [NoOp])"
proof -
  have r: "(snd (handle_continuing_series R cfg s dry st) = Inl RequestException) =
     (\<not> status_ok R (trace st @ [Sonarr_GET_episode (series_id s)]))"
    by (rule handle_continuing_series_raises)
  show ?thesis
  proof (cases "snd (handle_continuing_series R cfg s dry st)")
    case (Inl e)
    then have "snd (handle_continuing_series R cfg s dry st) = Inl RequestException"
      by (cases e) simp
    then show ?thesis using r
      by (simp add: sonarr_item_def Let_def case_prod_beta note_disposition_simps
          handle_ended_series_state send_simps handle_continuing_series_frame)
  next
    case (Inr v)
    then show ?thesis using r
      by (simp add: sonarr_item_def Let_def case_prod_beta note_disposition_simps
          handle_ended_series_state send_simps handle_continuing_series_frame)
  qed
qed

lemma radarr_item_dispositions:
  "dispositions (radarr_item R ex dry mv st) =
     dispositions st @
       (if media_to_delete st (py_str (tmdbId mv)) = None then [NotCandidate]
        else if is_exempt ex (movie_tags mv) then [ExemptSkip]
        else if movie_id mv \<noteq> None then [Deleted] else [NoOp])"
  by (simp add: radarr_item_def Let_def note_disposition_simps radarr_delete_media_def
      send_simps)

section \<open>Claims about one pass of a loop\<close>

text \<open>
  C2. For an item whose tags meet the exempt ids, one pass of the loop body sends no
  request at all, adds nothing to the total, and removes the item's key from the candidate
  mapping; for an item of the batch the branch taken is the exempt one. This holds for
  both values of \<open>dry_run\<close> and whatever the item's internal id, ended flag and size are,
  for the Sonarr loop and for the Radarr loop.
\<close>

theorem exempt_item_skipped:
  "(is_exempt exempt_tag_ids (series_tags s) \<longrightarrow>
      snd (sonarr_item R cfg exempt_tag_ids dry_run s st) = Inr () \<and>
      trace (fst (sonarr_item R cfg exempt_tag_ids dry_run s st)) = trace st \<and>
      media_to_delete (fst (sonarr_item R cfg exempt_tag_ids dry_run s st)) =
        (media_to_delete st)(py_str (tvdbId s) := None) \<and>
      total_size (fst (sonarr_item R cfg exempt_tag_ids dry_run s st)) = total_size st \<and>
      (media_to_delete st (py_str (tvdbId s)) \<noteq> None \<longrightarrow>
         dispositions (fst (sonarr_item R cfg exempt_tag_ids dry_run s st)) =
           dispositions st @ [ExemptSkip])) \<and>
   (is_exempt exempt_tag_ids (movie_tags mv) \<longrightarrow>
      trace (radarr_item R exempt_tag_ids dry_run mv st) = trace st \<and>
      media_to_delete (radarr_item R exempt_tag_ids dry_run mv st) =
        (media_to_delete st)(py_str (tmdbId mv) := None) \<and>
      total_size (radarr_item R exempt_tag_ids dry_run mv st) = total_size st \<and>
      (media_to_delete st (py_str (tmdbId mv)) \<noteq> None \<longrightarrow>
         dispositions (radarr_item R exempt_tag_ids dry_run mv st) =
           dispositions st @ [ExemptSkip]))"
  by (auto simp add: sonarr_item_def radarr_item_def Let_def note_disposition_simps)

text \<open>A series and a movie that carry the exempt tag 9, both candidates under the key 42.\<close>

theorem exempt_item_skipped_witness:
  "is_exempt [9] (series_tags (example_series 1 42 [9] False 1000)) \<and>
   is_exempt [9] (movie_tags (example_movie 1 42 [9] 1000)) \<and>
   media_to_delete (example_state [''42'' \<mapsto> ''Show'']) (py_str (tvdbId (example_series 1 42 [9] False 1000))) \<noteq> None \<and>
   trace (fst (sonarr_item (example_remote (\<lambda>h. True) [] [] (example_series 1 42 [9] False 0) [])
      (example_config 1) [9] False (example_series 1 42 [9] False 1000)
      (example_state [''42'' \<mapsto> ''Show'']))) = [] \<and>
   media_to_delete (fst (sonarr_item (example_remote (\<lambda>h. True) [] [] (example_series 1 42 [9] False 0) [])
      (example_config 1) [9] False (example_series 1 42 [9] False 1000)
      (example_state [''42'' \<mapsto> ''Show'']))) ''42'' = None \<and>
   trace (radarr_item (example_remote (\<lambda>h. True) [] [] (example_series 1 42 [9] False 0) [])
      [9] False (example_movie 1 42 [9] 1000) (example_state [''42'' \<mapsto> ''Show''])) = []"
proof -
  have a: "is_exempt [9] (series_tags (example_series 1 42 [9] False 1000))"
    by (simp add: is_exempt_def example_series_def get_or_def)
  have b: "is_exempt [9] (movie_tags (example_movie 1 42 [9] 1000))"
    by (simp add: is_exempt_def example_movie_def get_or_def)
  have k: "py_str (tvdbId (example_series 1 42 [9] False 1000)) = ''42''"
    by (simp add: example_series_def py_str_42)
  have c: "media_to_delete (example_state [''42'' \<mapsto> ''Show''])
      (py_str (tvdbId (example_series 1 42 [9] False 1000))) \<noteq> None"
    by (simp add: k example_state_def)
  have t: "trace (example_state [''42'' \<mapsto> ''Show'']) = []"
    by (simp add: example_state_def)
  show ?thesis
    using a b c
      exempt_item_skipped[of "[9]" "example_series 1 42 [9] False 1000"
        "example_remote (\<lambda>h. True) [] [] (example_series 1 42 [9] False 0) []"
        "example_config 1" False "example_state [''42'' \<mapsto> ''Show'']"
        "example_movie 1 42 [9] 1000"]
    by (simp add: k t)
qed

text \<open>
  C5. In a dry run a candidate movie that is not exempt and has an internal id adds its
  \<^verbatim>\<open>sizeOnDisk\<close> to the total, an ended series (or any series when the continuing-series
  policy is off) adds the \<^verbatim>\<open>sizeOnDisk\<close> of its statistics, and a continuing series under
  the policy adds zero.
\<close>

theorem dry_run_byte_accounting:
  "(media_to_delete st (py_str (tmdbId mv)) \<noteq> None \<and>
    \<not> is_exempt exempt_tag_ids (movie_tags mv) \<and> movie_id mv \<noteq> None \<longrightarrow>
      total_size (radarr_item R exempt_tag_ids True mv st) =
        total_size st + get_or (movie_sizeOnDisk mv) 0) \<and>
   (media_to_delete st (py_str (tvdbId s)) \<noteq> None \<and>
    \<not> is_exempt exempt_tag_ids (series_tags s) \<and> series_id s \<noteq> None \<and>
    (\<not> monitor_continuing_series cfg \<or> get_or (ended s) False) \<longrightarrow>
      snd (sonarr_item R cfg exempt_tag_ids True s st) = Inr () \<and>
      total_size (fst (sonarr_item R cfg exempt_tag_ids True s st)) =
        total_size st + series_size_on_disk s) \<and>
   (media_to_delete st (py_str (tvdbId s)) \<noteq> None \<and>
    \<not> is_exempt exempt_tag_ids (series_tags s) \<and> series_id s \<noteq> None \<and>
    monitor_continuing_series cfg \<and> \<not> get_or (ended s) False \<longrightarrow>
      total_size (fst (sonarr_item R cfg exempt_tag_ids True s st)) = total_size st + 0 \<and>
      (status_ok R (trace st @ [Sonarr_GET_episode (series_id s)]) \<longrightarrow>
         snd (sonarr_item R cfg exempt_tag_ids True s st) = Inr () \<and>
         dispositions (fst (sonarr_item R cfg exempt_tag_ids True s st)) =
           dispositions st @ [Trimmed]))"
proof -
  have m: "media_to_delete st (py_str (tmdbId mv)) \<noteq> None \<and>
    \<not> is_exempt exempt_tag_ids (movie_tags mv) \<and> movie_id mv \<noteq> None \<longrightarrow>
      total_size (radarr_item R exempt_tag_ids True mv st) =
        total_size st + get_or (movie_sizeOnDisk mv) 0"
    by (auto simp add: radarr_item_def Let_def note_disposition_simps)
  have e: "media_to_delete st (py_str (tvdbId s)) \<noteq> None \<and>
    \<not> is_exempt exempt_tag_ids (series_tags s) \<and> series_id s \<noteq> None \<and>
    (\<not> monitor_continuing_series cfg \<or> get_or (ended s) False) \<longrightarrow>
      snd (sonarr_item R cfg exempt_tag_ids True s st) = Inr () \<and>
      total_size (fst (sonarr_item R cfg exempt_tag_ids True s st)) =
        total_size st + series_size_on_disk s"
    by (auto simp add: sonarr_item_def Let_def note_disposition_simps handle_ended_series_def)
  have c: "media_to_delete st (py_str (tvdbId s)) \<noteq> None \<and>
    \<not> is_exempt exempt_tag_ids (series_tags s) \<and> series_id s \<noteq> None \<and>
    monitor_continuing_series cfg \<and> \<not> get_or (ended s) False \<longrightarrow>
      total_size (fst (sonarr_item R cfg exempt_tag_ids True s st)) = total_size st + 0 \<and>
      (status_ok R (trace st @ [Sonarr_GET_episode (series_id s)]) \<longrightarrow>
         snd (sonarr_item R cfg exempt_tag_ids True s st) = Inr () \<and>
         dispositions (fst (sonarr_item R cfg exempt_tag_ids True s st)) =
           dispositions st @ [Trimmed])"
    by (auto simp add: sonarr_item_def Let_def note_disposition_simps
        handle_continuing_series_def get_media_episodes_def send_def)
  show ?thesis using m e c by blast
qed

text \<open>A movie, an ended series and a continuing series of 1000 bytes each.\<close>

theorem dry_run_byte_accounting_witness:
  "media_to_delete (example_state [''42'' \<mapsto> ''Film'']) (py_str (tmdbId (example_movie 1 42 [] 1000))) \<noteq> None \<and>
   \<not> is_exempt [9] (movie_tags (example_movie 1 42 [] 1000)) \<and>
   movie_id (example_movie 1 42 [] 1000) \<noteq> None \<and>
   total_size (radarr_item (example_remote (\<lambda>h. True) [] [] (example_series 1 42 [] False 0) [])
     [9] True (example_movie 1 42 [] 1000) (example_state [''42'' \<mapsto> ''Film''])) = 1000 \<and>
   get_or (ended (example_series 1 42 [] True 1000)) False \<and>
   total_size (fst (sonarr_item (example_remote (\<lambda>h. True) [] [] (example_series 1 42 [] False 0) [])
     (example_config 1) [9] True (example_series 1 42 [] True 1000)
     (example_state [''42'' \<mapsto> ''Film'']))) = 1000 \<and>
   monitor_continuing_series (example_config 1) \<and>
   \<not> get_or (ended (example_series 1 42 [] False 1000)) False \<and>
   total_size (fst (sonarr_item (example_remote (\<lambda>h. True) [] [] (example_series 1 42 [] False 0) [])
     (example_config 1) [9] True (example_series 1 42 [] False 1000)
     (example_state [''42'' \<mapsto> ''Film'']))) = 0"
proof -
  have k: "py_str (tmdbId (example_movie 1 42 [] 1000)) = ''42''"
    "py_str (tvdbId (example_series 1 42 [] True 1000)) = ''42''"
    "py_str (tvdbId (example_series 1 42 [] False 1000)) = ''42''"
    by (simp_all add: example_defs py_str_42)
  have a: "media_to_delete (example_state [''42'' \<mapsto> ''Film'']) ''42'' \<noteq> None"
    "total_size (example_state [''42'' \<mapsto> ''Film'']) = 0"
    by (simp_all add: example_defs)
  have b: "\<not> is_exempt [9] (movie_tags (example_movie 1 42 [] 1000))"
    "\<not> is_exempt [9] (series_tags (example_series 1 42 [] True 1000))"
    "\<not> is_exempt [9] (series_tags (example_series 1 42 [] False 1000))"
    "movie_id (example_movie 1 42 [] 1000) \<noteq> None"
    "series_id (example_series 1 42 [] True 1000) \<noteq> None"
    "series_id (example_series 1 42 [] False 1000) \<noteq> None"
    "get_or (movie_sizeOnDisk (example_movie 1 42 [] 1000)) 0 = 1000"
    "series_size_on_disk (example_series 1 42 [] True 1000) = 1000"
    by (simp_all add: example_defs is_exempt_def get_or_def series_size_on_disk_def)
  have c: "get_or (ended (example_series 1 42 [] True 1000)) False"
    "monitor_continuing_series (example_config 1)"
    "\<not> get_or (ended (example_series 1 42 [] False 1000)) False"
    by (simp_all add: example_defs get_or_def)
  show ?thesis
    using a b c
      dry_run_byte_accounting[where st = "example_state [''42'' \<mapsto> ''Film'']"
        and mv = "example_movie 1 42 [] 1000" and exempt_tag_ids = "[9]"
        and R = "example_remote (\<lambda>h. True) [] [] (example_series 1 42 [] False 0) []"
        and s = "example_series 1 42 [] True 1000" and cfg = "example_config 1"]
      dry_run_byte_accounting[where st = "example_state [''42'' \<mapsto> ''Film'']"
        and mv = "example_movie 1 42 [] 1000" and exempt_tag_ids = "[9]"
        and R = "example_remote (\<lambda>h. True) [] [] (example_series 1 42 [] False 0) []"
        and s = "example_series 1 42 [] False 1000" and cfg = "example_config 1"]
    by (simp add: k)
qed

text \<open>
  C7. A live trim whose episode fetch, unmonitor request (when there is one) and bulk file
  deletion succeed, with at least one file id to delete: the next and last request
  persists the series record in which every season with episode count zero reads as
  unmonitored and every season with a positive count is unchanged, nothing else in the
  record being touched; the bytes returned are the size of the series before the update
  minus the size in the record that the update request returns.
\<close>

theorem live_trim_unmonitors_empty_seasons:
  assumes "h1 = trace st @ [Sonarr_GET_episode (series_id s)]"
    and "status_ok R h1"
    and "unload = episodes_to_unload cfg (episode_body R h1)"
    and "delete_episode_file_ids unload \<noteq> []"
    and "h2 = (if unmonitor_episode_ids unload \<noteq> []
               then h1 @ [Sonarr_PUT_episode_monitor (unmonitor_episode_ids unload) False]
               else h1)"
    and "status_ok R h2"
    and "h3 = h2 @ [Sonarr_DELETE_episodefile_bulk (delete_episode_file_ids unload)]"
    and "status_ok R h3"
    and "h4 = h3 @ [Sonarr_PUT_series (unmonitor_empty_seasons s)]"
  shows "trace (fst (handle_continuing_series R cfg s False st)) = h4 \<and>
    snd (handle_continuing_series R cfg s False st) =
      (if status_ok R h4
       then Inr (series_size_on_disk s - series_size_on_disk (put_series_body R h4))
       else Inr 0) \<and>
    length (get_or (seasons (unmonitor_empty_seasons s)) []) = length (get_or (seasons s) []) \<and>
    (\<forall>i < length (get_or (seasons s) []).
      (season_episode_count (get_or (seasons s) [] ! i) = 0 \<longrightarrow>
         \<not> get_or (season_monitored (get_or (seasons (unmonitor_empty_seasons s)) [] ! i)) False) \<and>
      (season_episode_count (get_or (seasons s) [] ! i) > 0 \<longrightarrow>
         get_or (seasons (unmonitor_empty_seasons s)) [] ! i = get_or (seasons s) [] ! i) \<and>
      season_statistics (get_or (seasons (unmonitor_empty_seasons s)) [] ! i) =
        season_statistics (get_or (seasons s) [] ! i)) \<and>
    unmonitor_empty_seasons s = s\<lparr>seasons := seasons (unmonitor_empty_seasons s)\<rparr>"
proof -
  have t: "trace (fst (handle_continuing_series R cfg s False st)) = h4"
    using assms(2,4,6,8) unfolding assms(1,3,5,7,9)
    by (simp add: handle_continuing_series_state split: if_splits)
  have r: "snd (handle_continuing_series R cfg s False st) =
      (if status_ok R h4
       then Inr (series_size_on_disk s - series_size_on_disk (put_series_body R h4))
       else Inr 0)"
    using assms(2,4,6,8) unfolding assms(1,3,5,7,9)
    by (simp add: handle_continuing_series_def get_media_episodes_def monitor_media_episodes_def
      delete_media_episodes_def put_media_def Let_def send_def split: if_splits)
  show ?thesis
    using t r unmonitor_empty_seasons_props[of s] by simp
qed

text \<open>
  A series of 1000 bytes with an empty monitored season; the remote accepts every request
  and the updated record reports 400 bytes.
\<close>

theorem live_trim_unmonitors_empty_seasons_witness:
  "status_ok (example_remote (\<lambda>h. True) []
       [example_episode 1 1 1 True True 6, example_episode 2 1 2 True True 7,
        example_episode 3 1 3 False True 7] (example_series 1 42 [] False 400) [])
     [Sonarr_GET_episode (Some 1)] \<and>
   trace (fst (handle_continuing_series
     (example_remote (\<lambda>h. True) []
       [example_episode 1 1 1 True True 6, example_episode 2 1 2 True True 7,
        example_episode 3 1 3 False True 7] (example_series 1 42 [] False 400) [])
     (example_config 1) (example_series 1 42 [] False 1000) False
     (example_state [''42'' \<mapsto> ''Show'']))) =
     [Sonarr_GET_episode (Some 1), Sonarr_PUT_episode_monitor [Some 2] False,
      Sonarr_DELETE_episodefile_bulk [Some 7],
      Sonarr_PUT_series ((example_series 1 42 [] False 1000)
        \<lparr>seasons := Some [example_season False 0, example_season True 2]\<rparr>)] \<and>
   snd (handle_continuing_series
     (example_remote (\<lambda>h. True) []
       [example_episode 1 1 1 True True 6, example_episode 2 1 2 True True 7,
        example_episode 3 1 3 False True 7] (example_series 1 42 [] False 400) [])
     (example_config 1) (example_series 1 42 [] False 1000) False
     (example_state [''42'' \<mapsto> ''Show''])) = Inr 600"
proof -
  let ?eps = "[example_episode 1 1 1 True True 6, example_episode 2 1 2 True True 7,
        example_episode 3 1 3 False True 7]"
  let ?R = "example_remote (\<lambda>h. True) [] ?eps (example_series 1 42 [] False 400) []"
  let ?s = "example_series 1 42 [] False 1000"
  let ?st = "example_state [''42'' \<mapsto> ''Show'']"
  have ok: "\<And>h. status_ok ?R h" and eb: "\<And>h. episode_body ?R h = ?eps"
    and pb: "\<And>h. put_series_body ?R h = example_series 1 42 [] False 400"
    by (simp_all add: example_remote_def)
  have i: "series_id ?s = Some 1" "trace ?st = []"
    by (simp_all add: example_defs)
  have ne: "delete_episode_file_ids (episodes_to_unload (example_config 1)
      (episode_body ?R (trace ?st @ [Sonarr_GET_episode (series_id ?s)]))) \<noteq> []"
    by (simp add: eb example_unload)
  have u: "unmonitor_empty_seasons ?s =
      ?s\<lparr>seasons := Some [example_season False 0, example_season True 2]\<rparr>"
    by (simp add: unmonitor_empty_seasons_def unmonitor_season_def season_episode_count_def
        example_defs get_or_def)
  have z: "series_size_on_disk ?s = 1000"
    "series_size_on_disk (example_series 1 42 [] False 400) = 400"
    by (simp_all add: series_size_on_disk_def example_defs get_or_def)
  show ?thesis
    using ok live_trim_unmonitors_empty_seasons[OF refl ok refl ne refl ok refl ok refl]
    by (simp add: eb pb i u z example_unload)
qed




section \<open>The loops\<close>

lemma sonarr_loop_trace:
  "\<exists>cs. trace (fst (sonarr_loop R cfg ex dry media st)) = trace st @ cs \<and>
     Sonarr_GET_series \<notin> set cs \<and> (\<forall>d. Sleep d \<notin> set cs) \<and>
     (dry \<longrightarrow> (\<forall>c \<in> set cs. \<not> mutating c))"
proof (induction media arbitrary: st)
  case Nil
  then show ?case by simp
next
  case (Cons s media)
  obtain cs where cs: "trace (fst (sonarr_item R cfg ex dry s st)) = trace st @ cs"
    "Sonarr_GET_series \<notin> set cs" "\<forall>d. Sleep d \<notin> set cs"
    "dry \<longrightarrow> (\<forall>c \<in> set cs. \<not> mutating c)"
    using sonarr_item_trace[of R cfg ex dry s st] by blast
  show ?case
  proof (cases "snd (sonarr_item R cfg ex dry s st)")
    case (Inl e)
    then have "fst (sonarr_loop R cfg ex dry (s # media) st) = fst (sonarr_item R cfg ex dry s st)"
      by (simp add: case_prod_beta)
    then show ?thesis using cs by simp
  next
    case (Inr u)
    then have e: "fst (sonarr_loop R cfg ex dry (s # media) st) =
        fst (sonarr_loop R cfg ex dry media (fst (sonarr_item R cfg ex dry s st)))"
      by (simp add: case_prod_beta)
    obtain cs' where cs': "trace (fst (sonarr_loop R cfg ex dry media (fst (sonarr_item R cfg ex dry s st))))
        = trace (fst (sonarr_item R cfg ex dry s st)) @ cs'"
      "Sonarr_GET_series \<notin> set cs'" "\<forall>d. Sleep d \<notin> set cs'"
      "dry \<longrightarrow> (\<forall>c \<in> set cs'. \<not> mutating c)"
      using Cons.IH[of "fst (sonarr_item R cfg ex dry s st)"] by blast
    have "trace (fst (sonarr_loop R cfg ex dry (s # media) st)) = trace st @ (cs @ cs')"
      using e cs(1) cs'(1) by simp
    moreover have "Sonarr_GET_series \<notin> set (cs @ cs')" "\<forall>d. Sleep d \<notin> set (cs @ cs')"
      "dry \<longrightarrow> (\<forall>c \<in> set (cs @ cs'). \<not> mutating c)"
      using cs cs' by auto
    ultimately show ?thesis by blast
  qed
qed

lemma sonarr_loop_mapping:
  "snd (sonarr_loop R cfg ex dry media st) = Inr u \<Longrightarrow>
   media_to_delete (fst (sonarr_loop R cfg ex dry media st)) =
     media_to_delete st |` (- {py_str (tvdbId s) | s. s \<in> set media \<and> is_exempt ex (series_tags s)})"
proof (induction media arbitrary: st)
  case Nil
  then show ?case by simp
next
  case (Cons s media)
  show ?case
  proof (cases "snd (sonarr_item R cfg ex dry s st)")
    case (Inl e)
    then show ?thesis using Cons.prems by (simp add: case_prod_beta)
  next
    case (Inr v)
    then have e: "sonarr_loop R cfg ex dry (s # media) st =
        sonarr_loop R cfg ex dry media (fst (sonarr_item R cfg ex dry s st))"
      by (simp add: case_prod_beta)
    then have "snd (sonarr_loop R cfg ex dry media (fst (sonarr_item R cfg ex dry s st))) = Inr u"
      using Cons.prems by simp
    from Cons.IH[OF this] show ?thesis
      unfolding e sonarr_item_mapping
      by (auto simp add: restrict_map_def fun_eq_iff)
  qed
qed

lemma radarr_loop_trace:
  "\<exists>cs. trace (radarr_loop R ex dry media st) = trace st @ cs \<and>
     (\<forall>c \<in> set cs. \<exists>i. c = Radarr_DELETE_movie i) \<and> (dry \<longrightarrow> cs = [])"
proof (induction media arbitrary: st)
  case Nil
  then show ?case by simp
next
  case (Cons mv media)
  obtain cs where cs: "trace (radarr_item R ex dry mv st) = trace st @ cs"
    "\<forall>c \<in> set cs. \<exists>i. c = Radarr_DELETE_movie i" "dry \<longrightarrow> cs = []"
    using radarr_item_trace[of R ex dry mv st] by blast
  obtain cs' where cs': "trace (radarr_loop R ex dry media (radarr_item R ex dry mv st)) =
      trace (radarr_item R ex dry mv st) @ cs'"
    "\<forall>c \<in> set cs'. \<exists>i. c = Radarr_DELETE_movie i" "dry \<longrightarrow> cs' = []"
    using Cons.IH[of "radarr_item R ex dry mv st"] by blast
  have "trace (radarr_loop R ex dry (mv # media) st) = trace st @ (cs @ cs')"
    using cs(1) cs'(1) by simp
  moreover have "\<forall>c \<in> set (cs @ cs'). \<exists>i. c = Radarr_DELETE_movie i" "dry \<longrightarrow> cs @ cs' = []"
    using cs cs' by auto
  ultimately show ?case by blast
qed

lemma radarr_loop_mapping:
  "media_to_delete (radarr_loop R ex dry media st) =
     media_to_delete st |` (- {py_str (tmdbId mv) | mv. mv \<in> set media \<and> is_exempt ex (movie_tags mv)})"
proof (induction media arbitrary: st)
  case Nil
  then show ?case by simp
next
  case (Cons mv media)
  show ?case
    unfolding radarr_loop.simps Cons.IH radarr_item_mapping
    by (auto simp add: restrict_map_def fun_eq_iff)
qed

lemma sonarr_loop_dry_live:
  assumes "\<forall>h h' i. status_ok R (h @ [Sonarr_GET_episode i]) = status_ok R (h' @ [Sonarr_GET_episode i])"
    and "media_to_delete st1 = media_to_delete st2"
    and "dispositions st1 = dispositions st2"
  shows "snd (sonarr_loop R cfg ex True media st1) = snd (sonarr_loop R cfg ex False media st2) \<and>
     media_to_delete (fst (sonarr_loop R cfg ex True media st1)) =
       media_to_delete (fst (sonarr_loop R cfg ex False media st2)) \<and>
     dispositions (fst (sonarr_loop R cfg ex True media st1)) =
       dispositions (fst (sonarr_loop R cfg ex False media st2))"
  using assms(2,3)
proof (induction media arbitrary: st1 st2)
  case Nil
  then show ?case by simp
next
  case (Cons s media)
  let ?a = "sonarr_item R cfg ex True s st1" and ?b = "sonarr_item R cfg ex False s st2"
  have ok: "status_ok R (trace st1 @ [Sonarr_GET_episode (series_id s)]) =
      status_ok R (trace st2 @ [Sonarr_GET_episode (series_id s)])"
    using assms(1) by blast
  have r: "snd ?a = snd ?b"
    unfolding sonarr_item_result using Cons.prems ok by simp
  have m: "media_to_delete (fst ?a) = media_to_delete (fst ?b)"
    unfolding sonarr_item_mapping using Cons.prems by simp
  have d: "dispositions (fst ?a) = dispositions (fst ?b)"
    unfolding sonarr_item_dispositions using Cons.prems ok by simp
  show ?case
  proof (cases "snd ?b")
    case (Inl e)
    then show ?thesis using r m d by (simp add: case_prod_beta)
  next
    case (Inr u)
    then show ?thesis using r Cons.IH[OF m d] by (simp add: case_prod_beta)
  qed
qed

lemma radarr_loop_dry_live:
  "media_to_delete st1 = media_to_delete st2 \<Longrightarrow> dispositions st1 = dispositions st2 \<Longrightarrow>
   media_to_delete (radarr_loop R ex True media st1) =
     media_to_delete (radarr_loop R ex False media st2) \<and>
   dispositions (radarr_loop R ex True media st1) =
     dispositions (radarr_loop R ex False media st2)"
proof (induction media arbitrary: st1 st2)
  case Nil
  then show ?case by simp
next
  case (Cons mv media)
  have m: "media_to_delete (radarr_item R ex True mv st1) =
      media_to_delete (radarr_item R ex False mv st2)"
    unfolding radarr_item_mapping using Cons.prems by simp
  have d: "dispositions (radarr_item R ex True mv st1) =
      dispositions (radarr_item R ex False mv st2)"
    unfolding radarr_item_dispositions using Cons.prems by simp
  show ?case using Cons.IH[OF m d] by simp
qed

section \<open>One execution of a batch\<close>

lemma sonarr_batch_unfold:
  "sonarr_get_and_delete_media R cfg dry st =
     (if \<not> status_ok R (trace st @ [Sonarr_GET_series])
      then (send Sonarr_GET_series st, Inl RequestException)
      else if \<not> status_ok R (trace st @ [Sonarr_GET_series, Sonarr_GET_tag])
      then (send Sonarr_GET_tag (send Sonarr_GET_series st), Inl RequestException)
      else
        (case sonarr_loop R cfg
                (matching_tag_ids (sonarr_exempt_tag_names cfg)
                   (tag_body R (trace st @ [Sonarr_GET_series, Sonarr_GET_tag])))
                dry (series_body R (trace st @ [Sonarr_GET_series]))
                ((send Sonarr_GET_tag (send Sonarr_GET_series st))\<lparr>total_size := 0\<rparr>) of
           (st3, Inl err) \<Rightarrow> (st3, Inl err)
         | (st3, Inr _) \<Rightarrow> (st3, Inr (media_to_delete st3))))"
  by (simp add: sonarr_get_and_delete_media_def sonarr_get_media_def
      sonarr_get_exempt_tag_ids_def Let_def send_simps)

lemma radarr_batch_unfold:
  "radarr_batch R cfg dry st =
     (if \<not> status_ok R (trace st @ [Radarr_GET_movie])
      then (send Radarr_GET_movie st, Inl RequestException)
      else if \<not> status_ok R (trace st @ [Radarr_GET_movie, Radarr_GET_tag])
      then (send Radarr_GET_tag (send Radarr_GET_movie st), Inl RequestException)
      else
        (radarr_loop R
            (matching_tag_ids (radarr_exempt_tag_names cfg)
               (tag_body R (trace st @ [Radarr_GET_movie, Radarr_GET_tag])))
            dry (movie_body R (trace st @ [Radarr_GET_movie]))
            ((send Radarr_GET_tag (send Radarr_GET_movie st))\<lparr>exempt_count := 0, total_size := 0\<rparr>),
         Inr (media_to_delete (radarr_loop R
            (matching_tag_ids (radarr_exempt_tag_names cfg)
               (tag_body R (trace st @ [Radarr_GET_movie, Radarr_GET_tag])))
            dry (movie_body R (trace st @ [Radarr_GET_movie]))
            ((send Radarr_GET_tag (send Radarr_GET_movie st))\<lparr>exempt_count := 0, total_size := 0\<rparr>)))))"
  by (simp add: radarr_batch_def radarr_get_media_def radarr_get_exempt_tag_ids_def Let_def
      send_simps)

lemma sonarr_batch_fst:
  "fst (sonarr_get_and_delete_media R cfg dry st) =
     (if \<not> status_ok R (trace st @ [Sonarr_GET_series])
      then send Sonarr_GET_series st
      else if \<not> status_ok R (trace st @ [Sonarr_GET_series, Sonarr_GET_tag])
      then send Sonarr_GET_tag (send Sonarr_GET_series st)
      else fst (sonarr_loop R cfg
                (matching_tag_ids (sonarr_exempt_tag_names cfg)
                   (tag_body R (trace st @ [Sonarr_GET_series, Sonarr_GET_tag])))
                dry (series_body R (trace st @ [Sonarr_GET_series]))
                ((send Sonarr_GET_tag (send Sonarr_GET_series st))\<lparr>total_size := 0\<rparr>)))"
  by (simp add: sonarr_batch_unfold case_prod_beta split: sum.splits)

lemma sonarr_batch_trace:
  "\<exists>cs. trace (fst (sonarr_get_and_delete_media R cfg dry st)) = trace st @ Sonarr_GET_series # cs \<and>
     Sonarr_GET_series \<notin> set cs \<and> (\<forall>d. Sleep d \<notin> set cs) \<and>
     (dry \<longrightarrow> (\<forall>c \<in> set cs. \<not> mutating c))"
proof -
  let ?ex = "matching_tag_ids (sonarr_exempt_tag_names cfg)
                   (tag_body R (trace st @ [Sonarr_GET_series, Sonarr_GET_tag]))"
  let ?st2 = "(send Sonarr_GET_tag (send Sonarr_GET_series st))\<lparr>total_size := 0\<rparr>"
  let ?media = "series_body R (trace st @ [Sonarr_GET_series])"
  obtain cs where cs: "trace (fst (sonarr_loop R cfg ?ex dry ?media ?st2)) = trace ?st2 @ cs"
    "Sonarr_GET_series \<notin> set cs" "\<forall>d. Sleep d \<notin> set cs"
    "dry \<longrightarrow> (\<forall>c \<in> set cs. \<not> mutating c)"
    using sonarr_loop_trace[of R cfg ?ex dry ?media ?st2] by blast
  show ?thesis
  proof (cases "status_ok R (trace st @ [Sonarr_GET_series])")
    case False
    then have "trace (fst (sonarr_get_and_delete_media R cfg dry st)) =
        trace st @ Sonarr_GET_series # []"
      by (simp add: sonarr_batch_fst send_simps)
    then show ?thesis by (intro exI[of _ "[]"]) simp
  next
    case ok1: True
    show ?thesis
    proof (cases "status_ok R (trace st @ [Sonarr_GET_series, Sonarr_GET_tag])")
      case False
      then have "trace (fst (sonarr_get_and_delete_media R cfg dry st)) =
          trace st @ Sonarr_GET_series # [Sonarr_GET_tag]"
        using ok1 by (simp add: sonarr_batch_fst send_simps)
      then show ?thesis by (intro exI[of _ "[Sonarr_GET_tag]"]) simp
    next
      case True
      then have "trace (fst (sonarr_get_and_delete_media R cfg dry st)) =
          trace st @ Sonarr_GET_series # (Sonarr_GET_tag # cs)"
        using ok1 cs(1) by (simp add: sonarr_batch_fst send_simps)
      then show ?thesis using cs(2,3,4) by (intro exI[of _ "Sonarr_GET_tag # cs"]) simp
    qed
  qed
qed

lemma sonarr_batch_mapping:
  assumes "sonarr_get_and_delete_media R cfg dry st = (st', Inr m')"
  shows "m' = media_to_delete st' \<and>
     media_to_delete st' = media_to_delete st |`
       (- {py_str (tvdbId s) | s.
            s \<in> set (series_body R (trace st @ [Sonarr_GET_series])) \<and>
            is_exempt (matching_tag_ids (sonarr_exempt_tag_names cfg)
                 (tag_body R (trace st @ [Sonarr_GET_series, Sonarr_GET_tag]))) (series_tags s)})"
proof -
  let ?ex = "matching_tag_ids (sonarr_exempt_tag_names cfg)
                   (tag_body R (trace st @ [Sonarr_GET_series, Sonarr_GET_tag]))"
  let ?st2 = "(send Sonarr_GET_tag (send Sonarr_GET_series st))\<lparr>total_size := 0\<rparr>"
  let ?media = "series_body R (trace st @ [Sonarr_GET_series])"
  from assms have l: "snd (sonarr_loop R cfg ?ex dry ?media ?st2) = Inr ()"
    and s: "st' = fst (sonarr_loop R cfg ?ex dry ?media ?st2)" and m: "m' = media_to_delete st'"
    by (auto simp add: sonarr_batch_unfold case_prod_beta split: if_splits sum.splits)
  show ?thesis
    using sonarr_loop_mapping[OF l] m unfolding s by (simp add: send_simps)
qed

lemma radarr_batch_failure:
  assumes "radarr_batch R cfg dry st = (st', Inl e)"
  shows "st' = send Radarr_GET_movie st \<or> st' = send Radarr_GET_tag (send Radarr_GET_movie st)"
  using assms by (auto simp add: radarr_batch_unfold split: if_splits)

lemma radarr_batch_success:
  assumes "radarr_batch R cfg dry st = (st', Inr m')"
  shows "\<exists>rest. trace st' = trace st @ Radarr_GET_movie # Radarr_GET_tag # rest \<and>
     (\<forall>c \<in> set rest. \<exists>i. c = Radarr_DELETE_movie i) \<and> (dry \<longrightarrow> rest = []) \<and>
     m' = media_to_delete st' \<and>
     media_to_delete st' = media_to_delete st |`
       (- {py_str (tmdbId mv) | mv.
            mv \<in> set (movie_body R (trace st @ [Radarr_GET_movie])) \<and>
            is_exempt (matching_tag_ids (radarr_exempt_tag_names cfg)
                 (tag_body R (trace st @ [Radarr_GET_movie, Radarr_GET_tag]))) (movie_tags mv)})"
proof -
  let ?ex = "matching_tag_ids (radarr_exempt_tag_names cfg)
               (tag_body R (trace st @ [Radarr_GET_movie, Radarr_GET_tag]))"
  let ?st2 = "(send Radarr_GET_tag (send Radarr_GET_movie st))\<lparr>exempt_count := 0, total_size := 0\<rparr>"
  let ?media = "movie_body R (trace st @ [Radarr_GET_movie])"
  from assms have s: "st' = radarr_loop R ?ex dry ?media ?st2" and m: "m' = media_to_delete st'"
    by (auto simp add: radarr_batch_unfold split: if_splits)
  obtain cs where cs: "trace (radarr_loop R ?ex dry ?media ?st2) = trace ?st2 @ cs"
    "\<forall>c \<in> set cs. \<exists>i. c = Radarr_DELETE_movie i" "dry \<longrightarrow> cs = []"
    using radarr_loop_trace[of R ?ex dry ?media ?st2] by blast
  have "trace st' = trace st @ Radarr_GET_movie # Radarr_GET_tag # cs"
    using cs(1) s by (simp add: send_simps)
  moreover have "media_to_delete st' = media_to_delete st |`
       (- {py_str (tmdbId mv) | mv. mv \<in> set ?media \<and> is_exempt ?ex (movie_tags mv)})"
    unfolding s radarr_loop_mapping by (simp add: send_simps)
  ultimately show ?thesis using cs(2,3) m by blast
qed

lemma radarr_batch_trace:
  "\<exists>cs. trace (fst (radarr_batch R cfg dry st)) = trace st @ Radarr_GET_movie # cs \<and>
     Radarr_GET_movie \<notin> set cs \<and> (\<forall>d. Sleep d \<notin> set cs) \<and>
     (dry \<longrightarrow> (\<forall>c \<in> set cs. \<not> mutating c))"
proof (cases "snd (radarr_batch R cfg dry st)")
  case (Inl e)
  then have "radarr_batch R cfg dry st = (fst (radarr_batch R cfg dry st), Inl e)"
    by (metis prod.collapse)
  from radarr_batch_failure[OF this]
  have "trace (fst (radarr_batch R cfg dry st)) = trace st @ Radarr_GET_movie # [] \<or>
        trace (fst (radarr_batch R cfg dry st)) = trace st @ Radarr_GET_movie # [Radarr_GET_tag]"
    by (auto simp add: send_simps)
  then show ?thesis
  proof
    assume "trace (fst (radarr_batch R cfg dry st)) = trace st @ Radarr_GET_movie # []"
    then show ?thesis by (intro exI[of _ "[]"]) simp
  next
    assume "trace (fst (radarr_batch R cfg dry st)) = trace st @ Radarr_GET_movie # [Radarr_GET_tag]"
    then show ?thesis by (intro exI[of _ "[Radarr_GET_tag]"]) simp
  qed
next
  case (Inr m)
  then have "radarr_batch R cfg dry st = (fst (radarr_batch R cfg dry st), Inr m)"
    by (metis prod.collapse)
  from radarr_batch_success[OF this] obtain rest where
    r: "trace (fst (radarr_batch R cfg dry st)) = trace st @ Radarr_GET_movie # (Radarr_GET_tag # rest)"
      "\<forall>c \<in> set rest. \<exists>i. c = Radarr_DELETE_movie i" "dry \<longrightarrow> rest = []"
    by auto
  have "Radarr_GET_movie \<notin> set (Radarr_GET_tag # rest)" "\<forall>d. Sleep d \<notin> set (Radarr_GET_tag # rest)"
    "dry \<longrightarrow> (\<forall>c \<in> set (Radarr_GET_tag # rest). \<not> mutating c)"
    using r(2,3) by auto
  then show ?thesis using r(1) by blast
qed

lemma radarr_batch_dry_live:
  assumes "trace st1 = trace st2" "media_to_delete st1 = media_to_delete st2"
    "dispositions st1 = dispositions st2"
  shows "snd (radarr_batch R cfg True st1) = snd (radarr_batch R cfg False st2) \<and>
     media_to_delete (fst (radarr_batch R cfg True st1)) =
       media_to_delete (fst (radarr_batch R cfg False st2)) \<and>
     dispositions (fst (radarr_batch R cfg True st1)) =
       dispositions (fst (radarr_batch R cfg False st2)) \<and>
     (\<forall>e. snd (radarr_batch R cfg False st2) = Inl e \<longrightarrow>
        trace (fst (radarr_batch R cfg True st1)) = trace (fst (radarr_batch R cfg False st2)))"
proof -
  let ?ex = "matching_tag_ids (radarr_exempt_tag_names cfg)
               (tag_body R (trace st2 @ [Radarr_GET_movie, Radarr_GET_tag]))"
  let ?media = "movie_body R (trace st2 @ [Radarr_GET_movie])"
  let ?s1 = "(send Radarr_GET_tag (send Radarr_GET_movie st1))\<lparr>exempt_count := 0, total_size := 0\<rparr>"
  let ?s2 = "(send Radarr_GET_tag (send Radarr_GET_movie st2))\<lparr>exempt_count := 0, total_size := 0\<rparr>"
  have l: "media_to_delete (radarr_loop R ?ex True ?media ?s1) =
     media_to_delete (radarr_loop R ?ex False ?media ?s2) \<and>
   dispositions (radarr_loop R ?ex True ?media ?s1) =
     dispositions (radarr_loop R ?ex False ?media ?s2)"
    using assms by (intro radarr_loop_dry_live) (simp_all add: send_simps)
  show ?thesis
    using l assms by (simp add: radarr_batch_unfold send_simps)
qed

section \<open>The retried Radarr entry point\<close>

lemma retry_step:
  "retry (Suc (Suc n)) d f st =
     (case snd (f st) of
        Inr v \<Rightarrow> (fst (f st), Inr (Some v))
      | Inl e \<Rightarrow> retry (Suc n) d f (send (Sleep d) (fst (f st))))"
  "retry (Suc 0) d f st =
     (case snd (f st) of
        Inr v \<Rightarrow> (fst (f st), Inr (Some v))
      | Inl e \<Rightarrow> (fst (f st), Inl e))"
  by (simp_all add: retry.simps case_prod_beta split: sum.splits)

lemma retry_radarr_count:
  "\<exists>new. trace (fst (retry (Suc n) d (radarr_batch R cfg dry) st)) = trace st @ new \<and>
      1 \<le> count_list new Radarr_GET_movie \<and> count_list new Radarr_GET_movie \<le> Suc n \<and>
      count_list new (Sleep d) + 1 = count_list new Radarr_GET_movie \<and>
      (\<forall>d'. Sleep d' \<in> set new \<longrightarrow> d' = d) \<and>
      (\<forall>e. snd (retry (Suc n) d (radarr_batch R cfg dry) st) = Inl e \<longrightarrow>
           count_list new Radarr_GET_movie = Suc n) \<and>
      (\<forall>e. snd (radarr_batch R cfg dry st) = Inl e \<longrightarrow> 0 < n \<longrightarrow>
           2 \<le> count_list new Radarr_GET_movie) \<and>
      (dry \<longrightarrow> (\<forall>c \<in> set new. \<not> mutating c)) \<and>
      snd (retry (Suc n) d (radarr_batch R cfg dry) st) \<noteq> Inr None"
proof (induction n arbitrary: st)
  case 0
  obtain cs where cs: "trace (fst (radarr_batch R cfg dry st)) = trace st @ Radarr_GET_movie # cs"
    "Radarr_GET_movie \<notin> set cs" "\<forall>d. Sleep d \<notin> set cs"
    "dry \<longrightarrow> (\<forall>c \<in> set cs. \<not> mutating c)"
    using radarr_batch_trace[of R cfg dry st] by blast
  have f: "fst (retry (Suc 0) d (radarr_batch R cfg dry) st) = fst (radarr_batch R cfg dry st)"
    and s: "snd (retry (Suc 0) d (radarr_batch R cfg dry) st) \<noteq> Inr None"
    by (simp_all add: retry_step split: sum.splits)
  show ?case
    using cs s unfolding f
    by (intro exI[of _ "Radarr_GET_movie # cs"]) simp
next
  case (Suc n)
  obtain cs where cs: "trace (fst (radarr_batch R cfg dry st)) = trace st @ Radarr_GET_movie # cs"
    "Radarr_GET_movie \<notin> set cs" "\<forall>d. Sleep d \<notin> set cs"
    "dry \<longrightarrow> (\<forall>c \<in> set cs. \<not> mutating c)"
    using radarr_batch_trace[of R cfg dry st] by blast
  show ?case
  proof (cases "snd (radarr_batch R cfg dry st)")
    case (Inr m)
    then have f: "fst (retry (Suc (Suc n)) d (radarr_batch R cfg dry) st) =
        fst (radarr_batch R cfg dry st)"
      and s: "snd (retry (Suc (Suc n)) d (radarr_batch R cfg dry) st) = Inr (Some m)"
      by (simp_all add: retry_step)
    show ?thesis
      using cs Inr unfolding f s
      by (intro exI[of _ "Radarr_GET_movie # cs"]) simp
  next
    case (Inl e)
    let ?st1 = "send (Sleep d) (fst (radarr_batch R cfg dry st))"
    from Inl have r: "retry (Suc (Suc n)) d (radarr_batch R cfg dry) st =
        retry (Suc n) d (radarr_batch R cfg dry) ?st1"
      by (simp add: retry_step)
    obtain new where new:
      "trace (fst (retry (Suc n) d (radarr_batch R cfg dry) ?st1)) = trace ?st1 @ new"
      "1 \<le> count_list new Radarr_GET_movie" "count_list new Radarr_GET_movie \<le> Suc n"
      "count_list new (Sleep d) + 1 = count_list new Radarr_GET_movie"
      "\<forall>d'. Sleep d' \<in> set new \<longrightarrow> d' = d"
      "\<forall>e. snd (retry (Suc n) d (radarr_batch R cfg dry) ?st1) = Inl e \<longrightarrow>
           count_list new Radarr_GET_movie = Suc n"
      "dry \<longrightarrow> (\<forall>c \<in> set new. \<not> mutating c)"
      "snd (retry (Suc n) d (radarr_batch R cfg dry) ?st1) \<noteq> Inr None"
      using Suc.IH[of ?st1] by blast
    let ?all = "Radarr_GET_movie # cs @ Sleep d # new"
    have t: "trace (fst (retry (Suc (Suc n)) d (radarr_batch R cfg dry) st)) = trace st @ ?all"
      unfolding r using new(1) cs(1) by (simp add: send_simps)
    have c1: "count_list ?all Radarr_GET_movie = Suc (count_list new Radarr_GET_movie)"
      using cs(2) by simp
    have c2: "count_list ?all (Sleep d) = Suc (count_list new (Sleep d))"
      using cs(3) by simp
    have c3: "\<forall>d'. Sleep d' \<in> set ?all \<longrightarrow> d' = d"
      using cs(3) new(5) by auto
    have c4: "dry \<longrightarrow> (\<forall>c \<in> set ?all. \<not> mutating c)"
      using cs(4) new(7) by auto
    show ?thesis
      unfolding r
      using t[unfolded r] c1 c2 c3 c4 new(2,3,4,6,8)
      by (intro exI[of _ ?all]) (simp del: count_list.simps set_simps set_append)
  qed
qed

lemma retry_radarr_success:
  "retry n d (radarr_batch R cfg dry) st = (st', Inr r) \<Longrightarrow> 0 < n \<Longrightarrow>
     \<exists>st0 m pre. radarr_batch R cfg dry st0 = (st', Inr m) \<and> r = Some m \<and>
       media_to_delete st0 = media_to_delete st \<and> dispositions st0 = dispositions st \<and>
       trace st0 = trace st @ pre"
proof (induction n arbitrary: st)
  case 0
  then show ?case by simp
next
  case (Suc n)
  show ?case
  proof (cases "snd (radarr_batch R cfg dry st)")
    case (Inr m)
    then have "retry (Suc n) d (radarr_batch R cfg dry) st =
        (fst (radarr_batch R cfg dry st), Inr (Some m))"
      by (cases n) (simp_all add: retry_step)
    then have "radarr_batch R cfg dry st = (st', Inr m)" "r = Some m"
      using Suc.prems(1) Inr by (simp_all add: prod_eq_iff)
    moreover have "trace st = trace st @ []" by simp
    ultimately show ?thesis by blast
  next
    case (Inl e)
    let ?st1 = "fst (radarr_batch R cfg dry st)"
    have b: "radarr_batch R cfg dry st = (?st1, Inl e)"
      using Inl by (simp add: prod_eq_iff)
    have k: "media_to_delete ?st1 = media_to_delete st" "dispositions ?st1 = dispositions st"
      using radarr_batch_failure[OF b] by (auto simp add: send_simps)
    obtain cs where cs: "trace ?st1 = trace st @ cs"
      using radarr_batch_failure[OF b] by (auto simp add: send_simps)
    show ?thesis
    proof (cases n)
      case 0
      then show ?thesis using Suc.prems(1) Inl by (simp add: retry_step)
    next
      case (Suc j)
      then have "retry n d (radarr_batch R cfg dry) (send (Sleep d) ?st1) = (st', Inr r)"
        using Suc.prems(1) Inl by (simp add: retry_step)
      from Suc.IH[OF this] Suc obtain st0 m pre where
        "radarr_batch R cfg dry st0 = (st', Inr m)" "r = Some m"
        "media_to_delete st0 = media_to_delete st" "dispositions st0 = dispositions st"
        "trace st0 = trace st @ (cs @ Sleep d # pre)"
        using k cs by (auto simp add: send_simps)
      then show ?thesis by blast
    qed
  qed
qed

lemma restrict_compl_apply: "(m |` (- K)) k = (if k \<in> K then None else m k)"
  by (simp add: restrict_map_def)

lemma retry_radarr_dry_live:
  assumes "trace st1 = trace st2" "media_to_delete st1 = media_to_delete st2"
    "dispositions st1 = dispositions st2"
  shows "snd (retry n d (radarr_batch R cfg True) st1) =
       snd (retry n d (radarr_batch R cfg False) st2) \<and>
     dispositions (fst (retry n d (radarr_batch R cfg True) st1)) =
       dispositions (fst (retry n d (radarr_batch R cfg False) st2))"
  using assms
proof (induction n arbitrary: st1 st2)
  case 0
  then show ?case by (simp add: retry.simps)
next
  case (Suc n)
  let ?a = "radarr_batch R cfg True st1" and ?b = "radarr_batch R cfg False st2"
  have b: "snd ?a = snd ?b" "media_to_delete (fst ?a) = media_to_delete (fst ?b)"
    "dispositions (fst ?a) = dispositions (fst ?b)"
    "\<forall>e. snd ?b = Inl e \<longrightarrow> trace (fst ?a) = trace (fst ?b)"
    using radarr_batch_dry_live[OF Suc.prems, of R cfg] by simp_all
  show ?case
  proof (cases "snd ?b")
    case (Inr m)
    then show ?thesis using b by (cases n) (simp_all add: retry_step)
  next
    case (Inl e)
    show ?thesis
    proof (cases n)
      case 0
      then show ?thesis using b Inl by (simp add: retry_step)
    next
      case (Suc j)
      have "snd (retry n d (radarr_batch R cfg True) (send (Sleep d) (fst ?a))) =
          snd (retry n d (radarr_batch R cfg False) (send (Sleep d) (fst ?b))) \<and>
        dispositions (fst (retry n d (radarr_batch R cfg True) (send (Sleep d) (fst ?a)))) =
          dispositions (fst (retry n d (radarr_batch R cfg False) (send (Sleep d) (fst ?b))))"
        using b Inl by (intro Suc.IH) (simp_all add: send_simps)
      then show ?thesis using b(1) Inl Suc by (simp add: retry_step)
    qed
  qed
qed

section \<open>Example runs\<close>

text \<open>A dry run of the Sonarr batch over an exempt series and a continuing series.\<close>

lemma example_sonarr_dry_run:
  "sonarr_get_and_delete_media example_library (example_config 1) True example_candidates =
   (\<lparr>trace = [Sonarr_GET_series, Sonarr_GET_tag, Sonarr_GET_episode (Some 2)],
      media_to_delete = [''42'' \<mapsto> ''B''], total_size = 0, exempt_count = 0,
      dispositions = [ExemptSkip, Trimmed]\<rparr>,
    Inr [''42'' \<mapsto> ''B''])"
  by (simp add: sonarr_batch_unfold example_library_def example_candidates_def
      example_remote_simps example_exempt_ids send_def
      example_state_def sonarr_item_def Let_def example_series_simps py_str_10 py_str_42
      is_exempt_def get_or_def note_disposition_def handle_continuing_series_def
      get_media_episodes_def example_config_simps fun_upd_twist)

text \<open>A live run of the Radarr batch over an exempt movie and a movie to delete.\<close>

lemma example_radarr_live_run:
  "radarr_get_and_delete_media example_library (example_config 1) False example_candidates =
   (\<lparr>trace = [Radarr_GET_movie, Radarr_GET_tag, Radarr_DELETE_movie (Some 2)],
      media_to_delete = [''42'' \<mapsto> ''B''], total_size = 1000, exempt_count = 1,
      dispositions = [ExemptSkip, Deleted]\<rparr>,
    Inr (Some [''42'' \<mapsto> ''B'']))"
  by (simp add: radarr_get_and_delete_media_def numeral_3_eq_3 retry.simps
      radarr_batch_unfold example_library_def example_candidates_def
      example_remote_simps example_exempt_ids send_def
      example_state_def radarr_item_def Let_def example_movie_simps py_str_10 py_str_42
      is_exempt_def get_or_def note_disposition_def radarr_delete_media_def fun_upd_twist)

text \<open>A remote that refuses every request: the Radarr batch is run three times.\<close>

lemma example_radarr_all_fail:
  "radarr_batch (example_remote (\<lambda>h. False) [] [] (example_series 2 42 [] False 400) [])
     (example_config 1) False (example_state [''42'' \<mapsto> ''B'']) =
   (\<lparr>trace = [Radarr_GET_movie], media_to_delete = [''42'' \<mapsto> ''B''], total_size = 0,
      exempt_count = 0, dispositions = []\<rparr>, Inl RequestException)"
  "radarr_get_and_delete_media
     (example_remote (\<lambda>h. False) [] [] (example_series 2 42 [] False 400) [])
     (example_config 1) False (example_state [''42'' \<mapsto> ''B'']) =
   (\<lparr>trace = [Radarr_GET_movie, Sleep 5, Radarr_GET_movie, Sleep 5, Radarr_GET_movie],
      media_to_delete = [''42'' \<mapsto> ''B''], total_size = 0,
      exempt_count = 0, dispositions = []\<rparr>, Inl RequestException)"
  by (simp_all add: radarr_get_and_delete_media_def numeral_3_eq_3 retry.simps
      radarr_batch_unfold example_remote_simps send_def example_state_def)

section \<open>Claims about a whole batch\<close>

text \<open>
  C10. When the Sonarr entry point returns, the mapping it returns is the argument
  dictionary after the run, and it is the input mapping with exactly the keys of the
  exempt series of the listing removed: every other key, whether its item was deleted,
  trimmed, had no internal id or failed in a mutating request, keeps its value. The same
  holds for the Radarr entry point, for the listing and the tag catalogue fetched by the
  attempt that returned (the history \<open>h\<close> before that attempt's two fetches). Both hold
  for either value of \<open>dry_run\<close>.
\<close>

theorem returned_mapping_drops_exempt_keys:
  "(sonarr_get_and_delete_media R cfg dry_run st = (st', Inr m') \<longrightarrow>
      m' = media_to_delete st' \<and>
      (\<forall>k. m' k =
         (if k \<in> {py_str (tvdbId s) | s.
               s \<in> set (series_body R (trace st @ [Sonarr_GET_series])) \<and>
               is_exempt (matching_tag_ids (sonarr_exempt_tag_names cfg)
                    (tag_body R (trace st @ [Sonarr_GET_series, Sonarr_GET_tag])))
                 (series_tags s)}
          then None else media_to_delete st k))) \<and>
   (radarr_get_and_delete_media R cfg dry_run st = (st'', Inr r) \<longrightarrow>
      (\<exists>h pre rest. h = trace st @ pre \<and>
         trace st'' = h @ Radarr_GET_movie # Radarr_GET_tag # rest \<and>
         (\<forall>c \<in> set rest. \<exists>i. c = Radarr_DELETE_movie i) \<and>
         r = Some (media_to_delete st'') \<and>
         (\<forall>k. media_to_delete st'' k =
            (if k \<in> {py_str (tmdbId mv) | mv.
                  mv \<in> set (movie_body R (h @ [Radarr_GET_movie])) \<and>
                  is_exempt (matching_tag_ids (radarr_exempt_tag_names cfg)
                       (tag_body R (h @ [Radarr_GET_movie, Radarr_GET_tag])))
                    (movie_tags mv)}
             then None else media_to_delete st k))))"
proof (intro conjI impI)
  assume a: "sonarr_get_and_delete_media R cfg dry_run st = (st', Inr m')"
  from sonarr_batch_mapping[OF a] have m: "m' = media_to_delete st'"
    and e: "media_to_delete st' = media_to_delete st |`
       (- {py_str (tvdbId s) | s.
            s \<in> set (series_body R (trace st @ [Sonarr_GET_series])) \<and>
            is_exempt (matching_tag_ids (sonarr_exempt_tag_names cfg)
                 (tag_body R (trace st @ [Sonarr_GET_series, Sonarr_GET_tag]))) (series_tags s)})"
    by simp_all
  show "m' = media_to_delete st'" by (rule m)
  show "\<forall>k. m' k =
         (if k \<in> {py_str (tvdbId s) | s.
               s \<in> set (series_body R (trace st @ [Sonarr_GET_series])) \<and>
               is_exempt (matching_tag_ids (sonarr_exempt_tag_names cfg)
                    (tag_body R (trace st @ [Sonarr_GET_series, Sonarr_GET_tag])))
                 (series_tags s)}
          then None else media_to_delete st k)"
    unfolding m by (subst e) (simp only: restrict_compl_apply, simp)
next
  assume a: "radarr_get_and_delete_media R cfg dry_run st = (st'', Inr r)"
  then have "retry 3 5 (radarr_batch R cfg dry_run) st = (st'', Inr r)"
    by (simp add: radarr_get_and_delete_media_def)
  from retry_radarr_success[OF this] obtain st0 m pre where
    b: "radarr_batch R cfg dry_run st0 = (st'', Inr m)" and r: "r = Some m"
    and k: "media_to_delete st0 = media_to_delete st"
    and p: "trace st0 = trace st @ pre"
    by auto
  from radarr_batch_success[OF b] obtain rest where
    t: "trace st'' = trace st0 @ Radarr_GET_movie # Radarr_GET_tag # rest"
    and d: "\<forall>c \<in> set rest. \<exists>i. c = Radarr_DELETE_movie i"
    and m: "m = media_to_delete st''"
    and e: "media_to_delete st'' = media_to_delete st0 |`
       (- {py_str (tmdbId mv) | mv.
            mv \<in> set (movie_body R (trace st0 @ [Radarr_GET_movie])) \<and>
            is_exempt (matching_tag_ids (radarr_exempt_tag_names cfg)
                 (tag_body R (trace st0 @ [Radarr_GET_movie, Radarr_GET_tag]))) (movie_tags mv)})"
    by blast
  have "\<forall>k. media_to_delete st'' k =
            (if k \<in> {py_str (tmdbId mv) | mv.
                  mv \<in> set (movie_body R (trace st0 @ [Radarr_GET_movie])) \<and>
                  is_exempt (matching_tag_ids (radarr_exempt_tag_names cfg)
                       (tag_body R (trace st0 @ [Radarr_GET_movie, Radarr_GET_tag])))
                    (movie_tags mv)}
             then None else media_to_delete st k)"
    unfolding k[symmetric] by (subst e) (simp only: restrict_compl_apply, simp)
  then show "\<exists>h pre rest. h = trace st @ pre \<and>
         trace st'' = h @ Radarr_GET_movie # Radarr_GET_tag # rest \<and>
         (\<forall>c \<in> set rest. \<exists>i. c = Radarr_DELETE_movie i) \<and>
         r = Some (media_to_delete st'') \<and>
         (\<forall>k. media_to_delete st'' k =
            (if k \<in> {py_str (tmdbId mv) | mv.
                  mv \<in> set (movie_body R (h @ [Radarr_GET_movie])) \<and>
                  is_exempt (matching_tag_ids (radarr_exempt_tag_names cfg)
                       (tag_body R (h @ [Radarr_GET_movie, Radarr_GET_tag])))
                    (movie_tags mv)}
             then None else media_to_delete st k))"
    using t d r m p by blast
qed

text \<open>
  The example library: the dry Sonarr run and the live Radarr run both return the
  candidates without the key 10 of the exempt item.
\<close>

theorem returned_mapping_drops_exempt_keys_witness:
  "sonarr_get_and_delete_media example_library (example_config 1) True example_candidates =
   (\<lparr>trace = [Sonarr_GET_series, Sonarr_GET_tag, Sonarr_GET_episode (Some 2)],
      media_to_delete = [''42'' \<mapsto> ''B''], total_size = 0, exempt_count = 0,
      dispositions = [ExemptSkip, Trimmed]\<rparr>,
    Inr [''42'' \<mapsto> ''B'']) \<and>
   radarr_get_and_delete_media example_library (example_config 1) False example_candidates =
   (\<lparr>trace = [Radarr_GET_movie, Radarr_GET_tag, Radarr_DELETE_movie (Some 2)],
      media_to_delete = [''42'' \<mapsto> ''B''], total_size = 1000, exempt_count = 1,
      dispositions = [ExemptSkip, Deleted]\<rparr>,
    Inr (Some [''42'' \<mapsto> ''B''])) \<and>
   [''42'' \<mapsto> ''B''] ''10'' =
     (if ''10'' \<in> {py_str (tvdbId s) | s.
           s \<in> set (series_body example_library (trace example_candidates @ [Sonarr_GET_series])) \<and>
           is_exempt (matching_tag_ids (sonarr_exempt_tag_names (example_config 1))
                (tag_body example_library
                   (trace example_candidates @ [Sonarr_GET_series, Sonarr_GET_tag])))
             (series_tags s)}
      then None else media_to_delete example_candidates ''10'')"
  using example_sonarr_dry_run example_radarr_live_run
    returned_mapping_drops_exempt_keys[of example_library "example_config 1" True
      example_candidates
      "\<lparr>trace = [Sonarr_GET_series, Sonarr_GET_tag, Sonarr_GET_episode (Some 2)],
        media_to_delete = [''42'' \<mapsto> ''B''], total_size = 0, exempt_count = 0,
        dispositions = [ExemptSkip, Trimmed]\<rparr>"
      "[''42'' \<mapsto> ''B'']"]
  by blast

text \<open>
  C9. Every execution of the Radarr batch starts with exactly one movie listing request,
  so these requests count the executions. The Radarr entry point executes the batch at
  least once and at most three times, sleeps 5 seconds between two executions and at no
  other time, executes it again when the first execution raises, and raises only after
  three executions. The Sonarr entry point executes its batch exactly once, whether it
  returns or raises, and never sleeps.
\<close>

theorem retry_only_around_radarr_batch:
  "trace (fst (radarr_get_and_delete_media R cfg dry_run st)) =
     trace st @ new_calls st (fst (radarr_get_and_delete_media R cfg dry_run st)) \<and>
   count_list (new_calls st (fst (radarr_batch R cfg dry_run st))) Radarr_GET_movie = 1 \<and>
   1 \<le> count_list (new_calls st (fst (radarr_get_and_delete_media R cfg dry_run st))) Radarr_GET_movie \<and>
   count_list (new_calls st (fst (radarr_get_and_delete_media R cfg dry_run st))) Radarr_GET_movie \<le> 3 \<and>
   count_list (new_calls st (fst (radarr_get_and_delete_media R cfg dry_run st))) (Sleep 5) + 1 =
     count_list (new_calls st (fst (radarr_get_and_delete_media R cfg dry_run st))) Radarr_GET_movie \<and>
   (\<forall>d. Sleep d \<in> set (new_calls st (fst (radarr_get_and_delete_media R cfg dry_run st))) \<longrightarrow> d = 5) \<and>
   (\<forall>e. snd (radarr_batch R cfg dry_run st) = Inl e \<longrightarrow>
      2 \<le> count_list (new_calls st (fst (radarr_get_and_delete_media R cfg dry_run st))) Radarr_GET_movie) \<and>
   (\<forall>e. snd (radarr_get_and_delete_media R cfg dry_run st) = Inl e \<longrightarrow>
      count_list (new_calls st (fst (radarr_get_and_delete_media R cfg dry_run st))) Radarr_GET_movie = 3) \<and>
   trace (fst (sonarr_get_and_delete_media R cfg dry_run st)) =
     trace st @ new_calls st (fst (sonarr_get_and_delete_media R cfg dry_run st)) \<and>
   count_list (new_calls st (fst (sonarr_get_and_delete_media R cfg dry_run st))) Sonarr_GET_series = 1 \<and>
   (\<forall>d. Sleep d \<notin> set (new_calls st (fst (sonarr_get_and_delete_media R cfg dry_run st))))"
proof -
  have three: "(3::nat) = Suc 2" by simp
  obtain new where new:
    "trace (fst (radarr_get_and_delete_media R cfg dry_run st)) = trace st @ new"
    "1 \<le> count_list new Radarr_GET_movie" "count_list new Radarr_GET_movie \<le> 3"
    "count_list new (Sleep 5) + 1 = count_list new Radarr_GET_movie"
    "\<forall>d'. Sleep d' \<in> set new \<longrightarrow> d' = 5"
    "\<forall>e. snd (radarr_get_and_delete_media R cfg dry_run st) = Inl e \<longrightarrow>
           count_list new Radarr_GET_movie = 3"
    "\<forall>e. snd (radarr_batch R cfg dry_run st) = Inl e \<longrightarrow> 2 \<le> count_list new Radarr_GET_movie"
    using retry_radarr_count[of 2 5 R cfg dry_run st]
    unfolding radarr_get_and_delete_media_def three by auto
  have n: "new_calls st (fst (radarr_get_and_delete_media R cfg dry_run st)) = new"
    using new(1) by (rule new_calls_append)
  obtain cs where cs: "trace (fst (radarr_batch R cfg dry_run st)) = trace st @ Radarr_GET_movie # cs"
    "Radarr_GET_movie \<notin> set cs"
    using radarr_batch_trace[of R cfg dry_run st] by blast
  have b: "count_list (new_calls st (fst (radarr_batch R cfg dry_run st))) Radarr_GET_movie = 1"
    using cs(2) by (simp add: new_calls_append[OF cs(1)])
  obtain ss where ss: "trace (fst (sonarr_get_and_delete_media R cfg dry_run st)) =
      trace st @ Sonarr_GET_series # ss"
    "Sonarr_GET_series \<notin> set ss" "\<forall>d. Sleep d \<notin> set ss"
    using sonarr_batch_trace[of R cfg dry_run st] by blast
  have s: "new_calls st (fst (sonarr_get_and_delete_media R cfg dry_run st)) = Sonarr_GET_series # ss"
    using ss(1) by (rule new_calls_append)
  have s1: "count_list (Sonarr_GET_series # ss) Sonarr_GET_series = 1"
    "\<forall>d. Sleep d \<notin> set (Sonarr_GET_series # ss)"
    using ss(2,3) by simp_all
  show ?thesis
    unfolding n s using new b ss(1) s1 by (intro conjI) assumption+
qed

text \<open>
  Against a remote that refuses every request the Radarr batch is executed three times
  and the Sonarr batch once.
\<close>

theorem retry_only_around_radarr_batch_witness:
  "snd (radarr_batch (example_remote (\<lambda>h. False) [] [] (example_series 2 42 [] False 400) [])
     (example_config 1) False (example_state [''42'' \<mapsto> ''B''])) = Inl RequestException \<and>
   snd (radarr_get_and_delete_media
     (example_remote (\<lambda>h. False) [] [] (example_series 2 42 [] False 400) [])
     (example_config 1) False (example_state [''42'' \<mapsto> ''B''])) = Inl RequestException \<and>
   count_list (new_calls (example_state [''42'' \<mapsto> ''B''])
     (fst (radarr_get_and_delete_media
       (example_remote (\<lambda>h. False) [] [] (example_series 2 42 [] False 400) [])
       (example_config 1) False (example_state [''42'' \<mapsto> ''B''])))) Radarr_GET_movie = 3 \<and>
   count_list (new_calls (example_state [''42'' \<mapsto> ''B''])
     (fst (sonarr_get_and_delete_media
       (example_remote (\<lambda>h. False) [] [] (example_series 2 42 [] False 400) [])
       (example_config 1) False (example_state [''42'' \<mapsto> ''B''])))) Sonarr_GET_series = 1"
proof -
  have a: "snd (radarr_batch (example_remote (\<lambda>h. False) [] [] (example_series 2 42 [] False 400) [])
     (example_config 1) False (example_state [''42'' \<mapsto> ''B''])) = Inl RequestException"
    "snd (radarr_get_and_delete_media
     (example_remote (\<lambda>h. False) [] [] (example_series 2 42 [] False 400) [])
     (example_config 1) False (example_state [''42'' \<mapsto> ''B''])) = Inl RequestException"
    by (simp_all add: example_radarr_all_fail)
  show ?thesis
    using a retry_only_around_radarr_batch[of
        "example_remote (\<lambda>h. False) [] [] (example_series 2 42 [] False 400) []"
        "example_config 1" False "example_state [''42'' \<mapsto> ''B'']"]
    by blast
qed

text \<open>
  C4. A dry run of either entry point sends no mutating request. The Radarr entry point
  logs the same dispositions and gives the same result in a dry run and in a live run
  from the same state. So does the Sonarr entry point when the remote answers the episode
  fetches from one snapshot, that is, when the status of an episode fetch does not depend
  on the requests sent before it.
\<close>

theorem dry_run_non_mutating:
  "trace (fst (sonarr_get_and_delete_media R cfg True st)) =
     trace st @ new_calls st (fst (sonarr_get_and_delete_media R cfg True st)) \<and>
   (\<forall>c \<in> set (new_calls st (fst (sonarr_get_and_delete_media R cfg True st))). \<not> mutating c) \<and>
   trace (fst (radarr_get_and_delete_media R cfg True st)) =
     trace st @ new_calls st (fst (radarr_get_and_delete_media R cfg True st)) \<and>
   (\<forall>c \<in> set (new_calls st (fst (radarr_get_and_delete_media R cfg True st))). \<not> mutating c) \<and>
   dispositions (fst (radarr_get_and_delete_media R cfg True st)) =
     dispositions (fst (radarr_get_and_delete_media R cfg False st)) \<and>
   snd (radarr_get_and_delete_media R cfg True st) =
     snd (radarr_get_and_delete_media R cfg False st) \<and>
   ((\<forall>h h' i. status_ok R (h @ [Sonarr_GET_episode i]) = status_ok R (h' @ [Sonarr_GET_episode i])) \<longrightarrow>
      dispositions (fst (sonarr_get_and_delete_media R cfg True st)) =
        dispositions (fst (sonarr_get_and_delete_media R cfg False st)) \<and>
      snd (sonarr_get_and_delete_media R cfg True st) =
        snd (sonarr_get_and_delete_media R cfg False st))"
proof -
  obtain ss where ss: "trace (fst (sonarr_get_and_delete_media R cfg True st)) =
      trace st @ Sonarr_GET_series # ss" "\<forall>c \<in> set ss. \<not> mutating c"
    using sonarr_batch_trace[of R cfg True st] by auto
  have s: "new_calls st (fst (sonarr_get_and_delete_media R cfg True st)) = Sonarr_GET_series # ss"
    using ss(1) by (rule new_calls_append)
  have 1: "trace (fst (sonarr_get_and_delete_media R cfg True st)) =
     trace st @ new_calls st (fst (sonarr_get_and_delete_media R cfg True st))"
    "\<forall>c \<in> set (new_calls st (fst (sonarr_get_and_delete_media R cfg True st))). \<not> mutating c"
    unfolding s using ss by simp_all
  have three: "(3::nat) = Suc 2" by simp
  obtain new where new:
    "trace (fst (radarr_get_and_delete_media R cfg True st)) = trace st @ new"
    "\<forall>c \<in> set new. \<not> mutating c"
    using retry_radarr_count[of 2 5 R cfg True st]
    unfolding radarr_get_and_delete_media_def three by auto
  have n: "new_calls st (fst (radarr_get_and_delete_media R cfg True st)) = new"
    using new(1) by (rule new_calls_append)
  have 2: "trace (fst (radarr_get_and_delete_media R cfg True st)) =
     trace st @ new_calls st (fst (radarr_get_and_delete_media R cfg True st))"
    "\<forall>c \<in> set (new_calls st (fst (radarr_get_and_delete_media R cfg True st))). \<not> mutating c"
    unfolding n using new by simp_all
  have 3: "dispositions (fst (radarr_get_and_delete_media R cfg True st)) =
     dispositions (fst (radarr_get_and_delete_media R cfg False st))"
    "snd (radarr_get_and_delete_media R cfg True st) =
     snd (radarr_get_and_delete_media R cfg False st)"
    using retry_radarr_dry_live[OF refl refl refl, of 3 5 R cfg st]
    by (simp_all add: radarr_get_and_delete_media_def)
  have 4: "dispositions (fst (sonarr_get_and_delete_media R cfg True st)) =
        dispositions (fst (sonarr_get_and_delete_media R cfg False st)) \<and>
      snd (sonarr_get_and_delete_media R cfg True st) =
        snd (sonarr_get_and_delete_media R cfg False st)"
    if snapshot: "\<forall>h h' i. status_ok R (h @ [Sonarr_GET_episode i]) =
        status_ok R (h' @ [Sonarr_GET_episode i])"
  proof -
    let ?ex = "matching_tag_ids (sonarr_exempt_tag_names cfg)
                   (tag_body R (trace st @ [Sonarr_GET_series, Sonarr_GET_tag]))"
    let ?st2 = "(send Sonarr_GET_tag (send Sonarr_GET_series st))\<lparr>total_size := 0\<rparr>"
    let ?media = "series_body R (trace st @ [Sonarr_GET_series])"
    have l: "snd (sonarr_loop R cfg ?ex True ?media ?st2) =
        snd (sonarr_loop R cfg ?ex False ?media ?st2) \<and>
      media_to_delete (fst (sonarr_loop R cfg ?ex True ?media ?st2)) =
        media_to_delete (fst (sonarr_loop R cfg ?ex False ?media ?st2)) \<and>
      dispositions (fst (sonarr_loop R cfg ?ex True ?media ?st2)) =
        dispositions (fst (sonarr_loop R cfg ?ex False ?media ?st2))"
      by (rule sonarr_loop_dry_live[OF snapshot refl refl])
    show ?thesis
      using l by (simp add: sonarr_batch_unfold case_prod_beta split: sum.splits)
  qed
  show ?thesis using 1 2 3 4 by (intro conjI impI) simp_all
qed

text \<open>
  The example library answers every request, so the snapshot condition holds: the live
  run logs the dispositions of the dry run.
\<close>

theorem dry_run_non_mutating_witness:
  "(\<forall>h h' i. status_ok example_library (h @ [Sonarr_GET_episode i]) =
       status_ok example_library (h' @ [Sonarr_GET_episode i])) \<and>
   dispositions (fst (sonarr_get_and_delete_media example_library (example_config 1) True
       example_candidates)) = [ExemptSkip, Trimmed] \<and>
   dispositions (fst (sonarr_get_and_delete_media example_library (example_config 1) False
       example_candidates)) = [ExemptSkip, Trimmed] \<and>
   snd (sonarr_get_and_delete_media example_library (example_config 1) False
       example_candidates) = Inr [''42'' \<mapsto> ''B'']"
proof -
  have snapshot: "\<forall>h h' i. status_ok example_library (h @ [Sonarr_GET_episode i]) =
       status_ok example_library (h' @ [Sonarr_GET_episode i])"
    by (simp add: example_library_def example_remote_simps)
  show ?thesis
    using snapshot example_sonarr_dry_run
      dry_run_non_mutating[of example_library "example_config 1" example_candidates]
    by simp
qed

text \<open>
  C3 does not hold on the code. In a live run against a remote that refuses the delete
  requests, the delete request of a candidate movie of 1000 bytes fails, the batch goes
  on to its end, and the movie still counts 1000 bytes in \<open>total_size\<close>; the same
  happens for an ended series.
\<close>

theorem failed_delete_counted_as_freed:
  "radarr_get_and_delete_media
     (example_remote deletes_fail [] [] (example_series 1 42 [] True 0)
        [example_movie 1 42 [] 1000])
     (example_config 1) False (example_state [''42'' \<mapsto> ''Film'']) =
   (\<lparr>trace = [Radarr_GET_movie, Radarr_GET_tag, Radarr_DELETE_movie (Some 1)],
      media_to_delete = [''42'' \<mapsto> ''Film''], total_size = 1000, exempt_count = 0,
      dispositions = [Deleted]\<rparr>,
    Inr (Some [''42'' \<mapsto> ''Film''])) \<and>
   \<not> deletes_fail [Radarr_GET_movie, Radarr_GET_tag, Radarr_DELETE_movie (Some 1)] \<and>
   sonarr_get_and_delete_media
     (example_remote deletes_fail [example_series 1 42 [] True 1000] []
        (example_series 1 42 [] True 0) [])
     (example_config 1) False (example_state [''42'' \<mapsto> ''Show'']) =
   (\<lparr>trace = [Sonarr_GET_series, Sonarr_GET_tag, Sonarr_DELETE_series (Some 1)],
      media_to_delete = [''42'' \<mapsto> ''Show''], total_size = 1000, exempt_count = 0,
      dispositions = [Deleted]\<rparr>,
    Inr [''42'' \<mapsto> ''Show'']) \<and>
   \<not> deletes_fail [Sonarr_GET_series, Sonarr_GET_tag, Sonarr_DELETE_series (Some 1)]"
proof -
  have d: "deletes_fail [Radarr_GET_movie]" "deletes_fail [Radarr_GET_movie, Radarr_GET_tag]"
    "deletes_fail [Sonarr_GET_series]" "deletes_fail [Sonarr_GET_series, Sonarr_GET_tag]"
    "\<not> deletes_fail [Radarr_GET_movie, Radarr_GET_tag, Radarr_DELETE_movie (Some 1)]"
    "\<not> deletes_fail [Sonarr_GET_series, Sonarr_GET_tag, Sonarr_DELETE_series (Some 1)]"
    by (simp_all add: deletes_fail_def)
  have r: "radarr_get_and_delete_media
     (example_remote deletes_fail [] [] (example_series 1 42 [] True 0)
        [example_movie 1 42 [] 1000])
     (example_config 1) False (example_state [''42'' \<mapsto> ''Film'']) =
   (\<lparr>trace = [Radarr_GET_movie, Radarr_GET_tag, Radarr_DELETE_movie (Some 1)],
      media_to_delete = [''42'' \<mapsto> ''Film''], total_size = 1000, exempt_count = 0,
      dispositions = [Deleted]\<rparr>,
    Inr (Some [''42'' \<mapsto> ''Film'']))"
    by (simp add: radarr_get_and_delete_media_def numeral_3_eq_3 retry.simps
      radarr_batch_unfold example_remote_simps example_exempt_ids send_def
      example_state_def radarr_item_def Let_def example_movie_simps py_str_42
      is_exempt_def get_or_def note_disposition_def radarr_delete_media_def d)
  have s: "sonarr_get_and_delete_media
     (example_remote deletes_fail [example_series 1 42 [] True 1000] []
        (example_series 1 42 [] True 0) [])
     (example_config 1) False (example_state [''42'' \<mapsto> ''Show'']) =
   (\<lparr>trace = [Sonarr_GET_series, Sonarr_GET_tag, Sonarr_DELETE_series (Some 1)],
      media_to_delete = [''42'' \<mapsto> ''Show''], total_size = 1000, exempt_count = 0,
      dispositions = [Deleted]\<rparr>,
    Inr [''42'' \<mapsto> ''Show''])"
    by (simp add: sonarr_batch_unfold example_remote_simps example_exempt_ids send_def
      example_state_def sonarr_item_def Let_def example_series_simps py_str_42
      is_exempt_def get_or_def note_disposition_def handle_ended_series_def
      sonarr_delete_media_def d)
  show ?thesis using r s d(5,6) by simp
qed

end
